theory Spec2Isabelle
  imports Complex_Main "HOL-Library.Signed_Division"
begin

section \<open>Python values\<close>

text \<open>
  A Python \<open>str\<close> is a sequence of Unicode code points: \<open>len\<close> counts code points and
  \<open>strip\<close> removes code points. A string is therefore a list of code points, each a
  natural number; \<open>lit\<close> embeds an ASCII literal of the source.
\<close>

type_synonym pystr = "nat list"

definition lit :: "string \<Rightarrow> pystr" where
  "lit s = map of_char s"

text \<open>
  The exceptions that the handler can meet. \<open>RequestException\<close> stands for the whole
  class hierarchy under \<open>requests.exceptions.RequestException\<close> (connection errors,
  \<open>HTTPError\<close>, and so on) and carries \<open>str(e)\<close>; the handler tells no other
  exception apart.
\<close>

datatype exn =
    RequestException pystr
  | KeyError
  | IndexError
  | TypeError
  | ValueError
  | AttributeError
  | OverflowError
  | UnknownTimeZoneError
  | BadRequestKeyError

definition and_then :: "exn + 'a \<Rightarrow> ('a \<Rightarrow> exn + 'b) \<Rightarrow> exn + 'b" where
  "and_then m f = (case m of Inl e \<Rightarrow> Inl e | Inr x \<Rightarrow> f x)"

text \<open>
  A Python \<open>float\<close> is an IEEE double. A finite double other than \<open>-0.0\<close> is
  represented by its exact value, a rational number (every double is one; the
  converse is not needed).
\<close>

datatype pyfloat = Finite rat | NegZero | PosInf | NegInf | NaN

text \<open>What \<open>response.json()\<close> can return: the Python image of a JSON document.\<close>

datatype pyval =
    PyNone
  | PyBool bool
  | PyInt int
  | PyFloat pyfloat
  | PyStr pystr
  | PyList "pyval list"
  | PyDict "(pystr \<times> pyval) list"

text \<open>The object returned by \<open>requests.get\<close>, as far as the handler reads it.\<close>

record response =
  status_code :: nat
  reason :: pystr
  url :: pystr
  json_result :: "exn + pyval"

text \<open>
  Everything the handler takes from outside its own text: the configured key, the
  HTTP client, the clock, and those operations of the interpreter whose results
  are fixed by floating-point arithmetic or by the Unicode character database.
\<close>

record runtime =
  API_Key :: pystr
  requests_get :: "pystr \<Rightarrow> exn + response"
  now_strftime :: "int \<Rightarrow> pystr \<Rightarrow> pystr"
  repr_other :: "pyval \<Rightarrow> pystr"
  float_floordiv :: "pyfloat \<Rightarrow> int \<Rightarrow> pyfloat"
  float_of_big_int :: "int \<Rightarrow> pyfloat option"
  float_timestamp :: "pyfloat \<Rightarrow> int option"
  unicode_capitalize :: "pystr \<Rightarrow> pystr"

text \<open>
  \<^item> \<open>now_strftime rt h fmt\<close> is \<open>datetime.now(tz).strftime(fmt)\<close> for the zone \<open>tz\<close>
    whose offset from UTC is \<open>h\<close> hours;
  \<^item> \<open>repr_other\<close> is \<open>str\<close> on floats, lists and dicts;
  \<^item> \<open>float_floordiv\<close> is \<open>//\<close> with a float on the left;
  \<^item> \<open>float_of_big_int\<close> is \<open>float(i)\<close> for an \<open>int\<close> beyond \<open>2 ^ 53\<close> in absolute
    value, which rounds, or raises \<open>OverflowError\<close> (\<open>None\<close>);
  \<^item> \<open>float_timestamp\<close> is the whole POSIX second that \<open>datetime.fromtimestamp\<close>
    reads from a float, \<open>None\<close> when it raises for a float that is not a time
    (\<open>ValueError\<close> or \<open>OverflowError\<close>);
  \<^item> \<open>unicode_capitalize\<close> is \<open>str.capitalize\<close> on a string with a code point
    outside ASCII.
\<close>

section \<open>Built-in operations\<close>

subsection \<open>Strings\<close>

text \<open>The code points for which \<open>str.isspace\<close> holds; \<open>str.strip()\<close> removes these.\<close>

definition is_space :: "nat \<Rightarrow> bool" where
  "is_space c \<longleftrightarrow>
     (9 \<le> c \<and> c \<le> 13) \<or> (28 \<le> c \<and> c \<le> 32) \<or> c = 133 \<or> c = 160 \<or> c = 5760 \<or>
     (8192 \<le> c \<and> c \<le> 8202) \<or> c = 8232 \<or> c = 8233 \<or> c = 8239 \<or> c = 8287 \<or>
     c = 12288"

definition strip :: "pystr \<Rightarrow> pystr" where
  "strip s = rev (dropWhile is_space (rev (dropWhile is_space s)))"

definition ascii_upper :: "nat \<Rightarrow> nat" where
  "ascii_upper c = (if 97 \<le> c \<and> c \<le> 122 then c - 32 else c)"

definition ascii_lower :: "nat \<Rightarrow> nat" where
  "ascii_lower c = (if 65 \<le> c \<and> c \<le> 90 then c + 32 else c)"

text \<open>
  \<open>str.capitalize()\<close>: the first character in upper case, all the others in lower
  case.
\<close>

definition capitalize :: "runtime \<Rightarrow> pystr \<Rightarrow> pystr" where
  "capitalize rt s =
     (if list_all (\<lambda>c. c < 128) s
      then (case s of [] \<Rightarrow> [] | c # cs \<Rightarrow> ascii_upper c # map ascii_lower cs)
      else unicode_capitalize rt s)"

subsection \<open>Numbers as text\<close>

fun str_nat :: "nat \<Rightarrow> pystr" where
  "str_nat n = (if n < 10 then [48 + n] else str_nat (n div 10) @ [48 + n mod 10])"

declare str_nat.simps [simp del]

definition str_int :: "int \<Rightarrow> pystr" where
  "str_int i = (if i < 0 then lit ''-'' @ str_nat (nat (- i)) else str_nat (nat i))"

text \<open>\<open>str(v)\<close>, which is also what an f-string field without a format gives.\<close>

definition py_str :: "runtime \<Rightarrow> pyval \<Rightarrow> pystr" where
  "py_str rt v =
     (case v of
        PyStr s \<Rightarrow> s
      | PyInt i \<Rightarrow> str_int i
      | PyBool b \<Rightarrow> (if b then lit ''True'' else lit ''False'')
      | PyNone \<Rightarrow> lit ''None''
      | _ \<Rightarrow> repr_other rt v)"

text \<open>Rounding to the nearest integer, a tie going to the even neighbour.\<close>

definition round_half_even :: "rat \<Rightarrow> int" where
  "round_half_even x =
     (let f = \<lfloor>x\<rfloor>; r = x - of_int f
      in if r < 1 / 2 then f
         else if 1 / 2 < r then f + 1
         else if even f then f else f + 1)"

definition two_digits :: "nat \<Rightarrow> pystr" where
  "two_digits n = [48 + n div 10, 48 + n mod 10]"

text \<open>
  The format \<open>.2f\<close> on a float. The conversion is correctly rounded: the digits are
  those of the exact value of the double, rounded half-even to a multiple of
  \<open>1 / 100\<close>; the sign is that of the double, also when the digits are all zero.
\<close>

definition fixed2 :: "nat \<Rightarrow> pystr" where
  "fixed2 n = str_nat (n div 100) @ lit ''.'' @ two_digits (n mod 100)"

definition float_2f :: "pyfloat \<Rightarrow> pystr" where
  "float_2f x =
     (case x of
        Finite q \<Rightarrow>
          (if q < 0 then lit ''-'' else []) @ fixed2 (nat (round_half_even (\<bar>q\<bar> * 100)))
      | NegZero \<Rightarrow> lit ''-0.00''
      | PosInf \<Rightarrow> lit ''inf''
      | NegInf \<Rightarrow> lit ''-inf''
      | NaN \<Rightarrow> lit ''nan'')"

text \<open>\<open>float(i)\<close>: exact up to \<open>2 ^ 53\<close>.\<close>

definition float_of_int :: "runtime \<Rightarrow> int \<Rightarrow> exn + pyfloat" where
  "float_of_int rt i =
     (if \<bar>i\<bar> \<le> 2 ^ 53 then Inr (Finite (of_int i))
      else (case float_of_big_int rt i of None \<Rightarrow> Inl OverflowError | Some x \<Rightarrow> Inr x))"

text \<open>
  \<open>f"{v:.2f}"\<close>: an \<open>int\<close> (and a \<open>bool\<close>, which is one) is converted to a float
  first; a \<open>str\<close> raises \<open>ValueError\<close>, any other type \<open>TypeError\<close>.
\<close>

definition format_2f :: "runtime \<Rightarrow> pyval \<Rightarrow> exn + pystr" where
  "format_2f rt v =
     (case v of
        PyFloat x \<Rightarrow> Inr (float_2f x)
      | PyInt i \<Rightarrow> and_then (float_of_int rt i) (\<lambda>x. Inr (float_2f x))
      | PyBool b \<Rightarrow> and_then (float_of_int rt (if b then 1 else 0)) (\<lambda>x. Inr (float_2f x))
      | PyStr s \<Rightarrow> Inl ValueError
      | _ \<Rightarrow> Inl TypeError)"

subsection \<open>Subscripts and dictionary access\<close>

text \<open>\<open>v[key]\<close> with a string key.\<close>

definition subscript :: "pyval \<Rightarrow> pystr \<Rightarrow> exn + pyval" where
  "subscript v key =
     (case v of
        PyDict d \<Rightarrow> (case map_of d key of None \<Rightarrow> Inl KeyError | Some x \<Rightarrow> Inr x)
      | _ \<Rightarrow> Inl TypeError)"

text \<open>
  \<open>v[0]\<close>. The keys of a dictionary read from JSON are strings, so \<open>0\<close> is never among
  them.
\<close>

definition subscript0 :: "pyval \<Rightarrow> exn + pyval" where
  "subscript0 v =
     (case v of
        PyList xs \<Rightarrow> (case xs of [] \<Rightarrow> Inl IndexError | x # _ \<Rightarrow> Inr x)
      | PyStr s \<Rightarrow> (case s of [] \<Rightarrow> Inl IndexError | c # _ \<Rightarrow> Inr (PyStr [c]))
      | PyDict d \<Rightarrow> Inl KeyError
      | _ \<Rightarrow> Inl TypeError)"

text \<open>\<open>v.get(key, dflt)\<close>: only a dictionary has the method.\<close>

definition dict_get :: "pyval \<Rightarrow> pystr \<Rightarrow> pyval \<Rightarrow> exn + pyval" where
  "dict_get v key dflt =
     (case v of
        PyDict d \<Rightarrow> (case map_of d key of None \<Rightarrow> Inr dflt | Some x \<Rightarrow> Inr x)
      | _ \<Rightarrow> Inl AttributeError)"

text \<open>\<open>v[k1][k2]\<close>.\<close>

definition subscript2 :: "pyval \<Rightarrow> pystr \<Rightarrow> pystr \<Rightarrow> exn + pyval" where
  "subscript2 v k1 k2 = and_then (subscript v k1) (\<lambda>x. subscript x k2)"

text \<open>\<open>v == 200\<close>: numbers compare by value, and \<open>True\<close> is \<open>1\<close>.\<close>

definition eq_200 :: "pyval \<Rightarrow> bool" where
  "eq_200 v =
     (case v of
        PyInt i \<Rightarrow> i = 200
      | PyFloat x \<Rightarrow> x = Finite 200
      | _ \<Rightarrow> False)"

text \<open>\<open>v < 0\<close>.\<close>

definition less_zero :: "pyval \<Rightarrow> exn + bool" where
  "less_zero v =
     (case v of
        PyInt i \<Rightarrow> Inr (i < 0)
      | PyBool b \<Rightarrow> Inr False
      | PyFloat x \<Rightarrow> Inr (case x of Finite q \<Rightarrow> q < 0 | NegInf \<Rightarrow> True | _ \<Rightarrow> False)
      | _ \<Rightarrow> Inl TypeError)"

definition float_neg :: "pyfloat \<Rightarrow> pyfloat" where
  "float_neg x =
     (case x of
        Finite q \<Rightarrow> (if q = 0 then NegZero else Finite (- q))
      | NegZero \<Rightarrow> Finite 0
      | PosInf \<Rightarrow> NegInf
      | NegInf \<Rightarrow> PosInf
      | NaN \<Rightarrow> NaN)"

section \<open>Time zones and clock times\<close>

text \<open>
  The hour count that names the zone: \<open>-timezone_offset // 3600\<close>. On integers
  Python's \<open>//\<close> is \<open>div\<close>.
\<close>

definition hour_offset :: "int \<Rightarrow> int" where
  "hour_offset timezone_offset = (- timezone_offset) div 3600"

text \<open>\<open>-v // 3600\<close> on any value.\<close>

definition neg_floordiv_3600 :: "runtime \<Rightarrow> pyval \<Rightarrow> exn + pyval" where
  "neg_floordiv_3600 rt v =
     (case v of
        PyInt i \<Rightarrow> Inr (PyInt (hour_offset i))
      | PyBool b \<Rightarrow> Inr (PyInt (hour_offset (if b then 1 else 0)))
      | PyFloat x \<Rightarrow> Inr (PyFloat (float_floordiv rt (float_neg x) 3600))
      | _ \<Rightarrow> Inl TypeError)"

text \<open>
  The name handed to \<open>pytz.timezone\<close>:
  \<open>f"Etc/GMT{'+' if timezone_offset < 0 else ''}{-timezone_offset // 3600}"\<close>.
\<close>

definition zone_name :: "runtime \<Rightarrow> pyval \<Rightarrow> exn + pystr" where
  "zone_name rt timezone_offset =
     and_then (less_zero timezone_offset) (\<lambda>neg.
     and_then (neg_floordiv_3600 rt timezone_offset) (\<lambda>h.
       Inr (lit ''Etc/GMT'' @ (if neg then lit ''+'' else []) @ py_str rt h)))"

text \<open>
  The zones of the time zone database whose names start with \<open>Etc/GMT\<close>, each with
  its offset from UTC in hours: the sign in the name is the opposite of the sign
  of the offset. Every name the handler builds starts with \<open>Etc/GMT\<close>.
\<close>

definition etc_gmt_zones :: "(pystr \<times> int) list" where
  "etc_gmt_zones =
     [(lit ''Etc/GMT'', 0), (lit ''Etc/GMT0'', 0), (lit ''Etc/GMT+0'', 0), (lit ''Etc/GMT-0'', 0)]
     @ map (\<lambda>n. (lit ''Etc/GMT+'' @ str_nat n, - int n))
         [1, 2, 3, 4, 5, 6, 7, 8, 9, 10, 11, 12]
     @ map (\<lambda>n. (lit ''Etc/GMT-'' @ str_nat n, int n))
         [1, 2, 3, 4, 5, 6, 7, 8, 9, 10, 11, 12, 13, 14]"

text \<open>\<open>pytz.timezone(name)\<close>; a zone is represented by its offset in hours.\<close>

definition pytz_timezone :: "pystr \<Rightarrow> exn + int" where
  "pytz_timezone name =
     (case map_of etc_gmt_zones name of
        None \<Rightarrow> Inl UnknownTimeZoneError
      | Some h \<Rightarrow> Inr h)"

text \<open>\<open>strftime('%H:%M:%S')\<close> on the second of the day.\<close>

definition hms :: "nat \<Rightarrow> pystr" where
  "hms s =
     two_digits (s div 3600) @ lit '':'' @ two_digits (s mod 3600 div 60) @ lit '':''
     @ two_digits (s mod 60)"

text \<open>
  \<open>datetime.fromtimestamp(ts, tz).strftime('%H:%M:%S')\<close> for the zone \<open>h\<close> hours
  from UTC. A \<open>datetime\<close> lies in the years 1 to 9999: the bounds are the POSIX
  seconds of 0001-01-01 00:00:00 and 9999-12-31 23:59:59. An \<open>int\<close> that does not
  fit the 64-bit \<open>time_t\<close> raises \<open>OverflowError\<close>; one that fits but lies outside
  the years raises \<open>ValueError\<close> (on some platforms \<open>OSError\<close>, for which
  \<open>ValueError\<close> stands here); a time that leaves the years when the offset of the
  zone is added raises \<open>OverflowError\<close>.
\<close>

definition fromtimestamp_hms :: "runtime \<Rightarrow> pyval \<Rightarrow> int \<Rightarrow> exn + pystr" where
  "fromtimestamp_hms rt ts h =
     and_then
       (case ts of
          PyInt i \<Rightarrow> Inr i
        | PyBool b \<Rightarrow> Inr (if b then 1 else 0)
        | PyFloat x \<Rightarrow>
            (case float_timestamp rt x of None \<Rightarrow> Inl ValueError | Some s \<Rightarrow> Inr s)
        | _ \<Rightarrow> Inl TypeError)
       (\<lambda>s.
          if s < - 9223372036854775808 \<or> 9223372036854775807 < s then Inl OverflowError
          else if s < - 62135596800 \<or> 253402300799 < s then Inl ValueError
          else if s + h * 3600 < - 62135596800 \<or> 253402300799 < s + h * 3600
          then Inl OverflowError
          else Inr (hms (nat ((s + h * 3600) mod 86400))))"

section \<open>The handler\<close>

text \<open>The dictionary \<open>weather_info\<close> given to the template, in insertion order.\<close>

type_synonym info = "(pystr \<times> pystr) list"

text \<open>
  \<open>raise_for_status()\<close> of the HTTP client: a status from 400 to 599 raises
  \<open>HTTPError\<close>, a \<open>RequestException\<close>.
\<close>

definition raise_for_status :: "response \<Rightarrow> exn + unit" where
  "raise_for_status r =
     (if 400 \<le> status_code r \<and> status_code r < 500
      then Inl (RequestException
                  (str_nat (status_code r) @ lit '' Client Error: '' @ reason r
                   @ lit '' for url: '' @ url r))
      else if 500 \<le> status_code r \<and> status_code r < 600
      then Inl (RequestException
                  (str_nat (status_code r) @ lit '' Server Error: '' @ reason r
                   @ lit '' for url: '' @ url r))
      else Inr ())"

text \<open>\<open>weather_data['weather'][0]['description']\<close> (line 48).\<close>

definition weather_description :: "pyval \<Rightarrow> exn + pyval" where
  "weather_description weather_data =
     and_then (subscript weather_data (lit ''weather'')) (\<lambda>w.
     and_then (subscript0 w) (\<lambda>w0. subscript w0 (lit ''description'')))"

text \<open>\<open>weather_data['wind'].get(key, 'N/A')\<close> (lines 49 and 50).\<close>

definition wind_get :: "pyval \<Rightarrow> pystr \<Rightarrow> exn + pyval" where
  "wind_get weather_data key =
     and_then (subscript weather_data (lit ''wind'')) (\<lambda>wind.
       dict_get wind key (PyStr (lit ''N/A'')))"

text \<open>\<open>weather_desc.capitalize()\<close> (line 75): only a \<open>str\<close> has the method.\<close>

definition capitalize_value :: "runtime \<Rightarrow> pyval \<Rightarrow> exn + pystr" where
  "capitalize_value rt v =
     (case v of PyStr s \<Rightarrow> Inr (capitalize rt s) | _ \<Rightarrow> Inl AttributeError)"

text \<open>
  The branch taken when \<open>cod\<close> is 200 (lines 41 to 80): the fields are read and
  the dictionary is built, in the order of the source.
\<close>

definition format_report :: "runtime \<Rightarrow> pyval \<Rightarrow> exn + info" where
  "format_report rt weather_data =
     and_then (subscript weather_data (lit ''name'')) (\<lambda>city_name.
     and_then (subscript2 weather_data (lit ''sys'') (lit ''country'')) (\<lambda>country.
     and_then (subscript2 weather_data (lit ''main'') (lit ''temp'')) (\<lambda>temperature.
     and_then (subscript2 weather_data (lit ''main'') (lit ''feels_like'')) (\<lambda>feels_like.
     and_then (subscript2 weather_data (lit ''main'') (lit ''humidity'')) (\<lambda>humidity.
     and_then (weather_description weather_data) (\<lambda>weather_desc.
     and_then (wind_get weather_data (lit ''speed'')) (\<lambda>wind_speed.
     and_then (wind_get weather_data (lit ''deg'')) (\<lambda>wind_deg.
     and_then (subscript weather_data (lit ''timezone'')) (\<lambda>timezone_offset.
     and_then (and_then (zone_name rt timezone_offset) pytz_timezone) (\<lambda>local_timezone.
     let day = now_strftime rt local_timezone (lit ''%A'');
         date = now_strftime rt local_timezone (lit ''%d %B %Y'')
     in
     and_then (and_then (subscript2 weather_data (lit ''sys'') (lit ''sunrise''))
                 (\<lambda>ts. fromtimestamp_hms rt ts local_timezone)) (\<lambda>sunrise_time.
     and_then (and_then (subscript2 weather_data (lit ''sys'') (lit ''sunset''))
                 (\<lambda>ts. fromtimestamp_hms rt ts local_timezone)) (\<lambda>sunset_time.
     and_then (format_2f rt temperature) (\<lambda>temperature_text.
     and_then (format_2f rt feels_like) (\<lambda>feels_like_text.
     and_then (capitalize_value rt weather_desc) (\<lambda>description.
       Inr [(lit ''city'', py_str rt city_name @ lit '', '' @ py_str rt country),
            (lit ''day'', day),
            (lit ''date'', date),
            (lit ''temperature'', temperature_text @ [176, 67]),
            (lit ''feels_like'', feels_like_text @ [176, 67]),
            (lit ''humidity'', py_str rt humidity @ lit ''%''),
            (lit ''description'', description),
            (lit ''wind_speed'', py_str rt wind_speed @ lit '' m/s''),
            (lit ''wind_deg'', py_str rt wind_deg @ [176]),
            (lit ''sunrise'', sunrise_time),
            (lit ''sunset'', sunset_time)])))))))))))))))"

text \<open>
  The body of the \<open>try\<close> statement (lines 34 to 83). Code point 176 above is the
  degree sign.
\<close>

definition fetch_weather :: "runtime \<Rightarrow> pystr \<Rightarrow> exn + info" where
  "fetch_weather rt u =
     and_then (requests_get rt u) (\<lambda>response.
     and_then (raise_for_status response) (\<lambda>_.
     and_then (json_result response) (\<lambda>weather_data.
     and_then (dict_get weather_data (lit ''cod'') PyNone) (\<lambda>cod.
       if eq_200 cod then format_report rt weather_data
       else Inr [(lit ''error'', lit ''City not found. Please check the city name.'')]))))"

text \<open>
  The URL of line 30:
  \<open>f"http://api.openweathermap.org/data/2.5/weather?appid={API_Key}&q={city}&units=metric"\<close>.
\<close>

definition base_url :: "runtime \<Rightarrow> pystr \<Rightarrow> pystr" where
  "base_url rt city =
     lit ''http://api.openweathermap.org/data/2.5/weather?appid='' @ API_Key rt
     @ lit ''&q='' @ city @ lit ''&units=metric''"

text \<open>
  The request as the handler reads it, and what a call of the handler does: the
  value of \<open>weather_info\<close> given to the template (or the exception that leaves the
  handler), and the URLs that were passed to \<open>requests.get\<close>.
\<close>

record request =
  request_method :: pystr
  form :: "pystr \<rightharpoonup> pystr"

record outcome =
  rendered :: "exn + info option"
  requested :: "pystr list"

definition weather :: "runtime \<Rightarrow> request \<Rightarrow> outcome" where
  "weather rt request =
     (if request_method request = lit ''POST'' then
        (case form request (lit ''city'') of
           None \<Rightarrow> \<lparr>rendered = Inl BadRequestKeyError, requested = []\<rparr>
         | Some raw \<Rightarrow>
             let city = strip raw in
             if city = [] then
               \<lparr>rendered = Inr (Some [(lit ''error'', lit ''Please enter a valid city name.'')]),
                requested = []\<rparr>
             else if length city > 100 then
               \<lparr>rendered = Inr (Some [(lit ''error'',
                    lit ''City name is too long. Please enter a valid city name.'')]),
                requested = []\<rparr>
             else
               \<lparr>rendered =
                      (case fetch_weather rt (base_url rt city) of
                         Inr weather_info \<Rightarrow> Inr (Some weather_info)
                       | Inl e \<Rightarrow>
                           (case e of
                              RequestException text \<Rightarrow>
                                Inr (Some [(lit ''error'',
                                  lit ''An error occurred while fetching weather data: '' @ text)])
                            | _ \<Rightarrow> Inl e)),
                   requested = [base_url rt city]\<rparr>)
      else \<lparr>rendered = Inr None, requested = []\<rparr>)"

section \<open>Sample inputs\<close>

text \<open>
  A provider document with every field the handler reads; the temperature, the
  \<open>weather\<close> list, the \<open>wind\<close> object and the zone offset are left open.
\<close>

definition sample_data :: "pyval \<Rightarrow> pyval \<Rightarrow> pyval \<Rightarrow> pyval \<Rightarrow> pyval" where
  "sample_data temp weather_list wind tz =
     PyDict [(lit ''cod'', PyInt 200),
             (lit ''name'', PyStr (lit ''London'')),
             (lit ''sys'', PyDict [(lit ''country'', PyStr (lit ''GB'')),
                                   (lit ''sunrise'', PyInt 1700000000),
                                   (lit ''sunset'', PyInt 1700030000)]),
             (lit ''main'', PyDict [(lit ''temp'', temp),
                                    (lit ''feels_like'', PyInt 20),
                                    (lit ''humidity'', PyInt 60)]),
             (lit ''weather'', weather_list),
             (lit ''wind'', wind),
             (lit ''timezone'', tz)]"

text \<open>
  A runtime whose client answers every request with status 200 and the given
  body, and whose clock shows a Monday.
\<close>

definition sample_runtime :: "exn + pyval \<Rightarrow> runtime" where
  "sample_runtime body =
     \<lparr>API_Key = lit ''KEY'',
      requests_get =
        (\<lambda>u. Inr \<lparr>status_code = 200, reason = lit ''OK'', url = u, json_result = body\<rparr>),
      now_strftime =
        (\<lambda>h fmt. if fmt = lit ''%A'' then lit ''Monday'' else lit ''01 January 2024''),
      repr_other = (\<lambda>v. lit ''?''),
      float_floordiv = (\<lambda>x d. NaN),
      float_of_big_int = (\<lambda>i. None),
      float_timestamp = (\<lambda>x. None),
      unicode_capitalize = (\<lambda>s. s)\<rparr>"

definition described :: "pystr \<Rightarrow> pyval" where
  "described desc = PyList [PyDict [(lit ''description'', PyStr desc)]]"

text \<open>
  A complete document: the temperature is the double nearest to 21.456, which is
  \<open>6039327100303835 / 2 ^ 48\<close>; the \<open>wind\<close> object is empty; the zone is five hours
  behind UTC.
\<close>

definition sample_body :: "pystr \<Rightarrow> pyval" where
  "sample_body desc =
     sample_data (PyFloat (Finite (6039327100303835 / 281474976710656)))
       (described desc) (PyDict []) (PyInt (- 18000))"

definition post :: "pystr \<Rightarrow> request" where
  "post raw = \<lparr>request_method = lit ''POST'', form = [lit ''city'' \<mapsto> raw]\<rparr>"

text \<open>
  A runtime whose client gives up with a \<open>RequestException\<close> when asked for the URL
  \<open>u\<close>, and fails in another way when asked for any other URL.
\<close>

definition timeout_runtime :: "pystr \<Rightarrow> runtime" where
  "timeout_runtime u =
     (sample_runtime (Inl ValueError))
       \<lparr>requests_get :=
          (\<lambda>v. if v = u then Inl (RequestException (lit ''timed out'')) else Inl ValueError)\<rparr>"

text \<open>
  What the template finds under a key of \<open>weather_info\<close>, when the handler got as
  far as the template and a dictionary was passed.
\<close>

definition shown :: "outcome \<Rightarrow> pystr \<Rightarrow> pystr option" where
  "shown out key =
     (case rendered out of
        Inr (Some weather_info) \<Rightarrow> map_of weather_info key
      | _ \<Rightarrow> None)"

text \<open>An exception that the \<open>except\<close> clause of line 86 does not catch.\<close>

definition escapes :: "exn \<Rightarrow> bool" where
  "escapes e = (case e of RequestException text \<Rightarrow> False | _ \<Rightarrow> True)"

text \<open>
  The value of a number that a double holds exactly: a finite float, or an \<open>int\<close>
  up to \<open>2 ^ 53\<close> in absolute value.
\<close>

definition number_value :: "pyval \<Rightarrow> rat option" where
  "number_value v =
     (case v of
        PyFloat x \<Rightarrow> (case x of Finite q \<Rightarrow> Some q | _ \<Rightarrow> None)
      | PyInt i \<Rightarrow> (if \<bar>i\<bar> \<le> 2 ^ 53 then Some (of_int i) else None)
      | _ \<Rightarrow> None)"

text \<open>
  What "the value rounded to two decimal places" means for a text: the sign of
  the value, a decimal numeral, a point and exactly two more digits, the whole
  within half a hundredth of the value.
\<close>

definition is_digit :: "nat \<Rightarrow> bool" where
  "is_digit c \<longleftrightarrow> 48 \<le> c \<and> c \<le> 57"

definition decimal_value :: "pystr \<Rightarrow> nat" where
  "decimal_value s = foldl (\<lambda>a c. 10 * a + (c - 48)) 0 s"

definition shows_rounded_2dp :: "rat \<Rightarrow> pystr \<Rightarrow> bool" where
  "shows_rounded_2dp x text \<longleftrightarrow>
     (\<exists>ip fp.
        text = (if x < 0 then lit ''-'' else []) @ ip @ lit ''.'' @ fp \<and>
        ip \<noteq> [] \<and> length fp = 2 \<and> list_all is_digit (ip @ fp) \<and>
        \<bar>of_nat (decimal_value ip) + of_nat (decimal_value fp) / 100 - \<bar>x\<bar>\<bar> \<le> 1 / 200)"

section \<open>Auxiliary facts\<close>

lemma lit_simps: "lit [] = []" "lit (c # cs) = of_char c # lit cs"
  by (simp_all add: lit_def)

lemma and_then_simps [simp]: "and_then (Inl e) f = Inl e" "and_then (Inr x) f = f x"
  by (simp_all add: and_then_def)

lemma and_then_eq_Inr: "and_then m f = Inr y \<longleftrightarrow> (\<exists>x. m = Inr x \<and> f x = Inr y)"
  by (cases m) simp_all

lemma and_then_eq_Inl:
  "and_then m f = Inl e \<longleftrightarrow> m = Inl e \<or> (\<exists>x. m = Inr x \<and> f x = Inl e)"
  by (cases m) auto

lemma post_simps [simp]:
  "request_method (post raw) = lit ''POST''" "form (post raw) (lit ''city'') = Some raw"
  by (simp_all add: post_def)

lemma strip_whitespace:
  assumes "\<forall>c \<in> set raw. is_space c"
  shows "strip raw = []"
proof -
  from assms have d: "dropWhile is_space raw = []" by simp
  show ?thesis unfolding strip_def d by simp
qed

lemma strip_replicate_letter: "strip (replicate n 97) = replicate n 97"
proof -
  have "dropWhile is_space (replicate n 97) = replicate n 97"
    by (cases n) (simp_all add: is_space_def)
  then show ?thesis by (simp add: strip_def)
qed

text \<open>What the handler does once the city has passed both checks.\<close>

lemma weather_valid:
  assumes "request_method request = lit ''POST''" and "form request (lit ''city'') = Some raw"
    and "strip raw \<noteq> []" and "length (strip raw) \<le> 100"
  shows "weather rt request =
     \<lparr>rendered =
        (case fetch_weather rt (base_url rt (strip raw)) of
           Inr weather_info \<Rightarrow> Inr (Some weather_info)
         | Inl e \<Rightarrow>
             (case e of
                RequestException text \<Rightarrow>
                  Inr (Some [(lit ''error'',
                    lit ''An error occurred while fetching weather data: '' @ text)])
              | _ \<Rightarrow> Inl e)),
      requested = [base_url rt (strip raw)]\<rparr>"
  using assms by (simp add: weather_def Let_def)

section \<open>Input validation\<close>

text \<open>
  Claim C5. A submitted city that consists of whitespace only (the empty string
  included) gets the answer "Please enter a valid city name." and no request is
  sent. The input may have any length: the emptiness check comes before the
  length check, so more than 100 blanks are still reported as an empty input.
\<close>

theorem whitespace_only_input_rejected:
  assumes "request_method request = lit ''POST''" and "form request (lit ''city'') = Some raw"
    and "\<forall>c \<in> set raw. is_space c"
  shows "weather rt request =
     \<lparr>rendered = Inr (Some [(lit ''error'', lit ''Please enter a valid city name.'')]),
      requested = []\<rparr>"
proof -
  from assms(3) have "strip raw = []" by (rule strip_whitespace)
  with assms(1,2) show ?thesis by (simp add: weather_def Let_def)
qed

theorem whitespace_only_input_rejected_witness:
  "100 < length (replicate 101 (32::nat)) \<and>
   list_all is_space (replicate 101 32) \<and>
   weather (sample_runtime (Inl ValueError)) (post (replicate 101 32)) =
     \<lparr>rendered = Inr (Some [(lit ''error'', lit ''Please enter a valid city name.'')]),
      requested = []\<rparr>"
  using whitespace_only_input_rejected
    [of "post (replicate 101 32)" "replicate 101 32" "sample_runtime (Inl ValueError)"]
  by (simp add: is_space_def list_all_iff)

text \<open>
  Claim C4. A submitted city with more than 100 characters after trimming gets the
  answer "City name is too long. Please enter a valid city name."; no request is
  sent, and the outcome is the same whatever the HTTP client and the rest of the
  runtime are.
\<close>

theorem long_city_rejected:
  assumes "request_method request = lit ''POST''" and "form request (lit ''city'') = Some raw"
    and "100 < length (strip raw)"
  shows "weather rt request =
     \<lparr>rendered = Inr (Some [(lit ''error'',
        lit ''City name is too long. Please enter a valid city name.'')]),
      requested = []\<rparr>
     \<and> weather rt request = weather rt' request"
proof -
  from assms(3) have "strip raw \<noteq> []" by auto
  with assms show ?thesis by (simp add: weather_def Let_def)
qed

theorem long_city_rejected_witness:
  "100 < length (strip (32 # replicate 101 97)) \<and>
   weather (sample_runtime (Inl ValueError)) (post (32 # replicate 101 97)) =
     \<lparr>rendered = Inr (Some [(lit ''error'',
        lit ''City name is too long. Please enter a valid city name.'')]),
      requested = []\<rparr>"
proof -
  have "strip (32 # replicate 101 97) = replicate 101 97"
    using strip_replicate_letter [of 101]
    by (simp add: strip_def is_space_def)
  then have len: "100 < length (strip (32 # replicate 101 97))" by simp
  from long_city_rejected [OF post_simps len, of "sample_runtime (Inl ValueError)"] len
  show ?thesis by simp
qed

section \<open>The outbound request\<close>

text \<open>
  Only \<open>requests.get\<close> itself reads the client: the steps after it are the same
  for any two runtimes that differ in the client alone.
\<close>

lemma py_str_client: "py_str (rt\<lparr>requests_get := g\<rparr>) v = py_str rt v"
  by (simp add: py_str_def split: pyval.splits)

lemma zone_name_client: "zone_name (rt\<lparr>requests_get := g\<rparr>) v = zone_name rt v"
  by (simp add: zone_name_def neg_floordiv_3600_def py_str_client split: pyval.splits)

lemma fromtimestamp_hms_client:
  "fromtimestamp_hms (rt\<lparr>requests_get := g\<rparr>) ts h = fromtimestamp_hms rt ts h"
  by (simp add: fromtimestamp_hms_def split: pyval.splits)

lemma format_2f_client: "format_2f (rt\<lparr>requests_get := g\<rparr>) v = format_2f rt v"
  by (simp add: format_2f_def float_of_int_def split: pyval.splits)

lemma capitalize_value_client:
  "capitalize_value (rt\<lparr>requests_get := g\<rparr>) v = capitalize_value rt v"
  by (simp add: capitalize_value_def capitalize_def split: pyval.splits)

lemma format_report_client:
  "format_report (rt\<lparr>requests_get := g\<rparr>) data = format_report rt data"
  by (simp add: format_report_def py_str_client zone_name_client fromtimestamp_hms_client
      format_2f_client capitalize_value_client)

lemma fetch_weather_client:
  assumes "g u = requests_get rt u"
  shows "fetch_weather (rt\<lparr>requests_get := g\<rparr>) u = fetch_weather rt u"
  using assms by (simp add: fetch_weather_def format_report_client cong: if_cong)

lemma base_url_client: "base_url (rt\<lparr>requests_get := g\<rparr>) city = base_url rt city"
  by (simp add: base_url_def)

lemma fetch_weather_get_raises:
  "requests_get rt u = Inl e \<Longrightarrow> fetch_weather rt u = Inl e"
  by (simp add: fetch_weather_def)

lemma timeout_runtime_simps:
  "API_Key (timeout_runtime u) = lit ''KEY''"
  "requests_get (timeout_runtime u) v =
     (if v = u then Inl (RequestException (lit ''timed out'')) else Inl ValueError)"
  by (simp_all add: timeout_runtime_def sample_runtime_def)

text \<open>
  Claim C10. For a city that passes validation the client is asked for one URL,
  the plain concatenation of the fixed prefix, the API key, \<open>&q=\<close>, the trimmed city
  and \<open>&units=metric\<close>. Nothing is escaped: every \<open>&\<close> (code point 38) and every \<open>=\<close>
  (code point 61) of the city is a separator of the query string. That the client
  is asked for this URL and for no other shows in the result: what
  \<open>requests.get\<close> raises or returns for this URL decides the outcome, and what
  the client would answer for any other URL does not matter.
\<close>

theorem outbound_url_is_raw_concatenation:
  assumes "request_method request = lit ''POST''" and "form request (lit ''city'') = Some raw"
    and "strip raw \<noteq> []" and "length (strip raw) \<le> 100"
  shows "requested (weather rt request) =
     [lit ''http://api.openweathermap.org/data/2.5/weather?appid='' @ API_Key rt
      @ lit ''&q='' @ strip raw @ lit ''&units=metric'']
     \<and> count_list (concat (requested (weather rt request))) 38 =
         2 + count_list (API_Key rt) 38 + count_list (strip raw) 38
     \<and> count_list (concat (requested (weather rt request))) 61 =
         3 + count_list (API_Key rt) 61 + count_list (strip raw) 61
     \<and> (\<forall>u. u = lit ''http://api.openweathermap.org/data/2.5/weather?appid='' @ API_Key rt
                 @ lit ''&q='' @ strip raw @ lit ''&units=metric'' \<longrightarrow>
           (\<forall>text. requests_get rt u = Inl (RequestException text) \<longrightarrow>
              rendered (weather rt request) =
                Inr (Some [(lit ''error'',
                  lit ''An error occurred while fetching weather data: '' @ text)]))
         \<and> (\<forall>e. requests_get rt u = Inl e \<and> escapes e \<longrightarrow>
              rendered (weather rt request) = Inl e)
         \<and> (\<forall>resp. requests_get rt u = Inr resp \<longrightarrow>
              rendered (weather rt request) =
                rendered (weather (rt\<lparr>requests_get := \<lambda>v. Inr resp\<rparr>) request))
         \<and> (\<forall>g. g u = requests_get rt u \<longrightarrow>
              weather (rt\<lparr>requests_get := g\<rparr>) request = weather rt request))"
proof -
  let ?u = "base_url rt (strip raw)"
  have u: "?u = lit ''http://api.openweathermap.org/data/2.5/weather?appid='' @ API_Key rt
      @ lit ''&q='' @ strip raw @ lit ''&units=metric''"
    by (simp add: base_url_def)
  note w = weather_valid [OF assms]
  have log: "requested (weather rt request) = [?u]"
    by (simp add: w)
  have c38: "count_list ?u 38 = 2 + count_list (API_Key rt) 38 + count_list (strip raw) 38"
    and c61: "count_list ?u 61 = 3 + count_list (API_Key rt) 61 + count_list (strip raw) 61"
    by (simp_all add: base_url_def lit_simps)
  have caught: "rendered (weather rt request) =
      Inr (Some [(lit ''error'', lit ''An error occurred while fetching weather data: '' @ text)])"
    if "requests_get rt ?u = Inl (RequestException text)" for "text"
    by (simp add: w fetch_weather_get_raises [OF that])
  have uncaught: "rendered (weather rt request) = Inl e"
    if "requests_get rt ?u = Inl e" and "escapes e" for e
    using that(2) by (cases e) (simp_all add: w fetch_weather_get_raises [OF that(1)] escapes_def)
  have same: "weather (rt\<lparr>requests_get := g\<rparr>) request = weather rt request"
    if "g ?u = requests_get rt ?u" for g
  proof -
    have "weather (rt\<lparr>requests_get := g\<rparr>) request =
        \<lparr>rendered =
          (case fetch_weather (rt\<lparr>requests_get := g\<rparr>) ?u of
             Inr weather_info \<Rightarrow> Inr (Some weather_info)
           | Inl e \<Rightarrow>
               (case e of
                  RequestException text \<Rightarrow>
                    Inr (Some [(lit ''error'',
                      lit ''An error occurred while fetching weather data: '' @ text)])
                | _ \<Rightarrow> Inl e)),
         requested = [?u]\<rparr>"
      using weather_valid [OF assms, of "rt\<lparr>requests_get := g\<rparr>"]
      by (simp only: base_url_client)
    then show ?thesis
      by (simp only: fetch_weather_client [of g "base_url rt (strip raw)" rt, OF that] w)
  qed
  have answer: "rendered (weather rt request) =
      rendered (weather (rt\<lparr>requests_get := \<lambda>v. Inr resp\<rparr>) request)"
    if "requests_get rt ?u = Inr resp" for resp
    using same [of "\<lambda>v. Inr resp"] that by simp
  show ?thesis
    unfolding log u [symmetric]
    using c38 c61 caught uncaught answer same by simp
qed

theorem outbound_url_is_raw_concatenation_witness:
  "strip (lit '' Paris&units=imperial '') \<noteq> [] \<and>
   length (strip (lit '' Paris&units=imperial '')) \<le> 100 \<and>
   requested (weather
     (timeout_runtime (lit ''http://api.openweathermap.org/data/2.5/weather?appid=KEY&q=Paris&units=imperial&units=metric''))
     (post (lit '' Paris&units=imperial ''))) =
     [lit ''http://api.openweathermap.org/data/2.5/weather?appid=KEY&q=Paris&units=imperial&units=metric'']
   \<and> count_list (concat (requested (weather
     (timeout_runtime (lit ''http://api.openweathermap.org/data/2.5/weather?appid=KEY&q=Paris&units=imperial&units=metric''))
     (post (lit '' Paris&units=imperial ''))))) 38 = 3
   \<and> rendered (weather
     (timeout_runtime (lit ''http://api.openweathermap.org/data/2.5/weather?appid=KEY&q=Paris&units=imperial&units=metric''))
     (post (lit '' Paris&units=imperial ''))) =
     Inr (Some [(lit ''error'', lit ''An error occurred while fetching weather data: timed out'')])
   \<and> rendered (weather
     (timeout_runtime (lit ''http://api.openweathermap.org/data/2.5/weather?appid=KEY&q=Paris%26units%3Dimperial&units=metric''))
     (post (lit '' Paris&units=imperial ''))) = Inl ValueError"
proof -
  define raw where "raw = lit '' Paris&units=imperial ''"
  define u where
    "u = lit ''http://api.openweathermap.org/data/2.5/weather?appid=KEY&q=Paris&units=imperial&units=metric''"
  define v where
    "v = lit ''http://api.openweathermap.org/data/2.5/weather?appid=KEY&q=Paris%26units%3Dimperial&units=metric''"
  have s: "strip raw = lit ''Paris&units=imperial''"
    unfolding raw_def by (simp add: strip_def lit_simps is_space_def)
  have n: "strip raw \<noteq> []" and l: "length (strip raw) \<le> 100"
    unfolding s by (simp_all add: lit_simps)
  have c: "lit ''http://api.openweathermap.org/data/2.5/weather?appid='' @ lit ''KEY''
      @ lit ''&q='' @ lit ''Paris&units=imperial'' @ lit ''&units=metric'' = u"
    unfolding u_def by (simp add: lit_simps)
  have d: "v \<noteq> u"
    unfolding u_def v_def by (simp add: lit_simps)
  have 4: "count_list u 38 = 3"
    unfolding u_def by (simp add: lit_simps)
  note t = outbound_url_is_raw_concatenation [OF post_simps n l, unfolded s]
  have gu: "requests_get (timeout_runtime u) u = Inl (RequestException (lit ''timed out''))"
    by (simp add: timeout_runtime_simps(2))
  have gv: "requests_get (timeout_runtime v) u = Inl ValueError"
    using d by (simp add: timeout_runtime_simps(2))
  have e: "escapes ValueError"
    by (simp add: escapes_def)
  from t [of "timeout_runtime u"]
  have 1: "requested (weather (timeout_runtime u) (post raw)) = [u]"
    unfolding timeout_runtime_simps(1) c by (rule conjunct1)
  from t [of "timeout_runtime u"]
  have "\<forall>msg. requests_get (timeout_runtime u) u = Inl (RequestException msg) \<longrightarrow>
      rendered (weather (timeout_runtime u) (post raw)) =
        Inr (Some [(lit ''error'', lit ''An error occurred while fetching weather data: '' @ msg)])"
    unfolding timeout_runtime_simps(1) c by blast
  with gu have 2: "rendered (weather (timeout_runtime u) (post raw)) =
      Inr (Some [(lit ''error'',
        lit ''An error occurred while fetching weather data: '' @ lit ''timed out'')])"
    by blast
  from t [of "timeout_runtime v"]
  have "\<forall>e. requests_get (timeout_runtime v) u = Inl e \<and> escapes e \<longrightarrow>
      rendered (weather (timeout_runtime v) (post raw)) = Inl e"
    unfolding timeout_runtime_simps(1) c by blast
  with gv e have 3: "rendered (weather (timeout_runtime v) (post raw)) = Inl ValueError"
    by blast
  have m: "lit ''An error occurred while fetching weather data: '' @ lit ''timed out'' =
      lit ''An error occurred while fetching weather data: timed out''"
    by (simp add: lit_simps)
  from n l 1 2 3 4 show ?thesis
    unfolding m raw_def [symmetric] u_def [symmetric] v_def [symmetric] by simp
qed

section \<open>The provider's answer\<close>

text \<open>\<open>cod == 200\<close> holds for the integer 200 and for the float 200.0 only.\<close>

lemma eq_200_iff: "eq_200 v \<longleftrightarrow> v = PyInt 200 \<or> v = PyFloat (Finite 200)"
  by (cases v) (simp_all add: eq_200_def)

lemma fetch_weather_response:
  assumes "requests_get rt u = Inr resp" and "raise_for_status resp = Inr ()"
    and "json_result resp = Inr data"
  shows "fetch_weather rt u =
     and_then (dict_get data (lit ''cod'') PyNone) (\<lambda>cod.
       if eq_200 cod then format_report rt data
       else Inr [(lit ''error'', lit ''City not found. Please check the city name.'')])"
  using assms by (simp add: fetch_weather_def)

text \<open>The sample client answers with status 200, so the body decides.\<close>

lemma sample_fetch:
  "fetch_weather (sample_runtime (Inr data)) u =
     and_then (dict_get data (lit ''cod'') PyNone) (\<lambda>cod.
       if eq_200 cod then format_report (sample_runtime (Inr data)) data
       else Inr [(lit ''error'', lit ''City not found. Please check the city name.'')])"
proof -
  let ?resp = "\<lparr>status_code = 200, reason = lit ''OK'', url = u, json_result = Inr data\<rparr>"
  have "requests_get (sample_runtime (Inr data)) u = Inr ?resp"
    by (simp add: sample_runtime_def)
  moreover have "raise_for_status ?resp = Inr ()"
    by (simp add: raise_for_status_def)
  moreover have "json_result ?resp = Inr data"
    by simp
  ultimately show ?thesis
    by (rule fetch_weather_response)
qed

lemma strip_London: "strip (lit ''London'') = lit ''London''"
  by (simp add: strip_def lit_simps is_space_def)

lemma sample_weather:
  "weather (sample_runtime (Inr data)) (post (lit ''London'')) =
     \<lparr>rendered =
        (case fetch_weather (sample_runtime (Inr data))
                (base_url (sample_runtime (Inr data)) (lit ''London'')) of
           Inr weather_info \<Rightarrow> Inr (Some weather_info)
         | Inl e \<Rightarrow>
             (case e of
                RequestException text \<Rightarrow>
                  Inr (Some [(lit ''error'',
                    lit ''An error occurred while fetching weather data: '' @ text)])
              | _ \<Rightarrow> Inl e)),
      requested = [base_url (sample_runtime (Inr data)) (lit ''London'')]\<rparr>"
proof -
  have "strip (lit ''London'') \<noteq> []" "length (strip (lit ''London'')) \<le> 100"
    unfolding strip_London by (simp_all add: lit_simps)
  from weather_valid [OF post_simps this] show ?thesis
    by (simp add: strip_London)
qed

lemma sample_cod: "dict_get (sample_data t w v z) (lit ''cod'') PyNone = Inr (PyInt 200)"
  by (simp add: sample_data_def dict_get_def)

lemmas report_eval =
  format_report_def sample_data_def sample_runtime_def described_def
  subscript_def subscript0_def subscript2_def dict_get_def weather_description_def wind_get_def
  capitalize_value_def lit_simps

text \<open>
  Claim C6. When the request succeeded, the status check passed and the body was
  parsed to an object, and \<open>weather_data.get('cod')\<close> (\<open>None\<close> when the key is
  missing) is not equal to 200, the answer is "City not found. Please check the
  city name.", whatever else the object holds.
\<close>

theorem non_200_cod_is_city_not_found:
  assumes "request_method request = lit ''POST''" and "form request (lit ''city'') = Some raw"
    and "strip raw \<noteq> []" and "length (strip raw) \<le> 100"
    and "requests_get rt (base_url rt (strip raw)) = Inr resp"
    and "raise_for_status resp = Inr ()"
    and "json_result resp = Inr (PyDict d)"
    and "dict_get (PyDict d) (lit ''cod'') PyNone = Inr cod"
    and "\<not> eq_200 cod"
  shows "rendered (weather rt request) =
     Inr (Some [(lit ''error'', lit ''City not found. Please check the city name.'')])"
  using assms by (simp add: weather_valid fetch_weather_response)

theorem non_200_cod_is_city_not_found_witness:
  "\<not> eq_200 (PyInt 404) \<and>
   rendered (weather
     (sample_runtime (Inr (PyDict [(lit ''cod'', PyInt 404), (lit ''name'', PyInt 7)])))
     (post (lit ''London''))) =
     Inr (Some [(lit ''error'', lit ''City not found. Please check the city name.'')])"
proof -
  let ?d = "[(lit ''cod'', PyInt 404), (lit ''name'', PyInt 7)]"
  let ?rt = "sample_runtime (Inr (PyDict ?d))"
  let ?resp = "\<lparr>status_code = 200, reason = lit ''OK'',
    url = base_url ?rt (strip (lit ''London'')), json_result = Inr (PyDict ?d)\<rparr>"
  have s: "strip (lit ''London'') \<noteq> []" "length (strip (lit ''London'')) \<le> 100"
    unfolding strip_London by (simp_all add: lit_simps)
  have g: "requests_get ?rt (base_url ?rt (strip (lit ''London''))) = Inr ?resp"
    by (simp add: sample_runtime_def)
  have st: "raise_for_status ?resp = Inr ()"
    by (simp add: raise_for_status_def)
  have j: "json_result ?resp = Inr (PyDict ?d)"
    by simp
  have c: "dict_get (PyDict ?d) (lit ''cod'') PyNone = Inr (PyInt 404)"
    by (simp add: dict_get_def)
  have n: "\<not> eq_200 (PyInt 404)"
    by (simp add: eq_200_def)
  from non_200_cod_is_city_not_found [OF post_simps s g st j c n] n
  show ?thesis by simp
qed

section \<open>Successful answers\<close>

text \<open>
  A dictionary without the key \<open>error\<close> can only come from the branch for
  \<open>cod == 200\<close>: it is the report built from the parsed body.
\<close>

lemma weather_success:
  assumes "request_method request = lit ''POST''" and "form request (lit ''city'') = Some raw"
    and "requests_get rt (base_url rt (strip raw)) = Inr resp"
    and "json_result resp = Inr data"
    and "rendered (weather rt request) = Inr (Some info)"
    and "map_of info (lit ''error'') = None"
  shows "format_report rt data = Inr info"
proof -
  have ne: "strip raw \<noteq> []"
  proof
    assume "strip raw = []"
    with assms(1,2,5) have "info = [(lit ''error'', lit ''Please enter a valid city name.'')]"
      by (simp add: weather_def Let_def)
    with assms(6) show False by simp
  qed
  have le: "length (strip raw) \<le> 100"
  proof (rule ccontr)
    assume "\<not> length (strip raw) \<le> 100"
    with assms(1,2,5) ne
    have "info = [(lit ''error'', lit ''City name is too long. Please enter a valid city name.'')]"
      by (simp add: weather_def Let_def)
    with assms(6) show False by simp
  qed
  from assms(5) have r: "(case fetch_weather rt (base_url rt (strip raw)) of
           Inr weather_info \<Rightarrow> Inr (Some weather_info)
         | Inl e \<Rightarrow>
             (case e of
                RequestException text \<Rightarrow>
                  Inr (Some [(lit ''error'',
                    lit ''An error occurred while fetching weather data: '' @ text)])
              | _ \<Rightarrow> Inl e)) = Inr (Some info)"
    by (simp add: weather_valid [OF assms(1,2) ne le])
  have f: "fetch_weather rt (base_url rt (strip raw)) = Inr info"
  proof (cases "fetch_weather rt (base_url rt (strip raw))")
    case (Inr i)
    with r show ?thesis by simp
  next
    case (Inl e)
    with r assms(6) show ?thesis by (cases e) auto
  qed
  show ?thesis
  proof (cases "raise_for_status resp")
    case (Inl e)
    with f assms(3) show ?thesis by (simp add: fetch_weather_def)
  next
    case (Inr u)
    with f assms(3,4) obtain cod where
      c: "(if eq_200 cod then format_report rt data
           else Inr [(lit ''error'', lit ''City not found. Please check the city name.'')]) = Inr info"
      by (auto simp: fetch_weather_def and_then_eq_Inr)
    with assms(6) show ?thesis by (cases "eq_200 cod") auto
  qed
qed

lemma format_report_keys:
  assumes "format_report rt data = Inr info"
  shows "map fst info =
     [lit ''city'', lit ''day'', lit ''date'', lit ''temperature'', lit ''feels_like'',
      lit ''humidity'', lit ''description'', lit ''wind_speed'', lit ''wind_deg'',
      lit ''sunrise'', lit ''sunset'']"
  using assms unfolding format_report_def Let_def and_then_eq_Inr
  by (elim exE conjE) auto

lemma fetch_weather_keys:
  assumes "fetch_weather rt u = Inr info"
  shows "map fst info = [lit ''error''] \<or> map fst info =
     [lit ''city'', lit ''day'', lit ''date'', lit ''temperature'', lit ''feels_like'',
      lit ''humidity'', lit ''description'', lit ''wind_speed'', lit ''wind_deg'',
      lit ''sunrise'', lit ''sunset'']"
proof -
  from assms obtain data cod where
    c: "(if eq_200 cod then format_report rt data
         else Inr [(lit ''error'', lit ''City not found. Please check the city name.'')]) = Inr info"
    unfolding fetch_weather_def and_then_eq_Inr by blast
  show ?thesis
  proof (cases "eq_200 cod")
    case True
    with c have "format_report rt data = Inr info" by simp
    then show ?thesis by (simp add: format_report_keys)
  next
    case False
    with c show ?thesis by auto
  qed
qed


lemma format_report_shape:
  assumes "format_report rt data = Inr info"
  shows "\<exists>city day date t f hum v ws wd sr ss text_t text_f text_d.
     subscript2 data (lit ''main'') (lit ''temp'') = Inr t \<and>
     subscript2 data (lit ''main'') (lit ''feels_like'') = Inr f \<and>
     weather_description data = Inr v \<and>
     wind_get data (lit ''speed'') = Inr ws \<and>
     wind_get data (lit ''deg'') = Inr wd \<and>
     format_2f rt t = Inr text_t \<and>
     format_2f rt f = Inr text_f \<and>
     capitalize_value rt v = Inr text_d \<and>
     info = [(lit ''city'', city),
            (lit ''day'', day),
            (lit ''date'', date),
            (lit ''temperature'', text_t @ [176, 67]),
            (lit ''feels_like'', text_f @ [176, 67]),
            (lit ''humidity'', hum),
            (lit ''description'', text_d),
            (lit ''wind_speed'', py_str rt ws @ lit '' m/s''),
            (lit ''wind_deg'', py_str rt wd @ [176]),
            (lit ''sunrise'', sr),
            (lit ''sunset'', ss)]"
  using assms unfolding format_report_def Let_def and_then_eq_Inr
  by (elim exE conjE) (simp only: sum.inject, blast)


lemma report_fields:
  assumes "info =
     [(lit ''city'', a1), (lit ''day'', a2), (lit ''date'', a3), (lit ''temperature'', a4),
      (lit ''feels_like'', a5), (lit ''humidity'', a6), (lit ''description'', a7),
      (lit ''wind_speed'', a8), (lit ''wind_deg'', a9), (lit ''sunrise'', a10),
      (lit ''sunset'', a11)]"
  shows "map_of info (lit ''temperature'') = Some a4"
    and "map_of info (lit ''feels_like'') = Some a5"
    and "map_of info (lit ''description'') = Some a7"
    and "map_of info (lit ''wind_speed'') = Some a8"
    and "map_of info (lit ''wind_deg'') = Some a9"
    and "map_of info (lit ''error'') = None"
  unfolding assms by (simp_all add: lit_simps)


section \<open>Evaluation on the sample inputs\<close>

lemma round_half_even_fraction:
  assumes "0 < b"
  shows "round_half_even (of_int a / of_int b) =
     (let q = a div b; r = a mod b
      in if 2 * r < b then q else if b < 2 * r then q + 1 else if even q then q else q + 1)"
proof -
  have fl: "\<lfloor>(of_int a / of_int b :: rat)\<rfloor> = a div b"
    by (simp add: floor_divide_of_int_eq)
  have "(of_int a :: rat) = of_int (a div b) * of_int b + of_int (a mod b)"
    by (metis of_int_add of_int_mult div_mult_mod_eq)
  then have fr: "(of_int a / of_int b :: rat) - of_int (a div b) = of_int (a mod b) / of_int b"
    using assms by (simp add: field_simps)
  have c1: "(of_int (a mod b) / of_int b < (1::rat) / 2) \<longleftrightarrow> 2 * (a mod b) < b"
  proof -
    have "(of_int (a mod b) / of_int b < (1::rat) / 2)
        \<longleftrightarrow> (of_int (2 * (a mod b)) :: rat) < of_int b"
      using assms by (simp add: field_simps)
    then show ?thesis by (simp only: of_int_less_iff)
  qed
  have c2: "((1::rat) / 2 < of_int (a mod b) / of_int b) \<longleftrightarrow> b < 2 * (a mod b)"
  proof -
    have "((1::rat) / 2 < of_int (a mod b) / of_int b)
        \<longleftrightarrow> (of_int b :: rat) < of_int (2 * (a mod b))"
      using assms by (simp add: field_simps)
    then show ?thesis by (simp only: of_int_less_iff)
  qed
  show ?thesis
    unfolding round_half_even_def Let_def fl fr c1 c2 ..
qed

lemma round_half_even_of_int: "round_half_even (of_int a) = a"
  by (simp add: round_half_even_def Let_def)

lemma fixed2_2146: "fixed2 2146 = lit ''21.46''"
  by (simp add: fixed2_def two_digits_def lit_simps str_nat.simps)

lemma fixed2_2000: "fixed2 2000 = lit ''20.00''"
  by (simp add: fixed2_def two_digits_def lit_simps str_nat.simps)

text \<open>The double nearest to 21.456 is \<open>6039327100303835 / 2 ^ 48\<close>.\<close>

lemma float_2f_21_456: "float_2f (Finite (6039327100303835 / 281474976710656)) = lit ''21.46''"
proof -
  have "(\<bar>6039327100303835 / 281474976710656\<bar> * 100 :: rat)
      = of_int 603932710030383500 / of_int 281474976710656"
    by simp
  then have "round_half_even (\<bar>6039327100303835 / 281474976710656\<bar> * 100) = 2146"
    by (simp only: round_half_even_fraction) (simp add: Let_def)
  then show ?thesis
    by (simp add: float_2f_def fixed2_2146)
qed

lemma format_2f_21_456:
  "format_2f rt (PyFloat (Finite (6039327100303835 / 281474976710656))) = Inr (lit ''21.46'')"
  by (simp only: format_2f_def pyval.case float_2f_21_456)

lemma format_2f_20: "format_2f rt (PyInt 20) = Inr (lit ''20.00'')"
  using round_half_even_of_int [of 2000]
  by (simp add: format_2f_def float_of_int_def float_2f_def fixed2_2000)

lemma sample_zone: "and_then (zone_name rt (PyInt (- 18000))) pytz_timezone = Inr (- 5)"
  by (simp add: zone_name_def less_zero_def neg_floordiv_3600_def hour_offset_def py_str_def
      str_int_def str_nat.simps pytz_timezone_def etc_gmt_zones_def lit_simps)

lemma sample_times:
  "fromtimestamp_hms rt (PyInt 1700000000) (- 5) = Inr (lit ''17:13:20'')"
  "fromtimestamp_hms rt (PyInt 1700030000) (- 5) = Inr (lit ''01:33:20'')"
  by (simp_all add: fromtimestamp_hms_def hms_def two_digits_def lit_simps)

lemma capitalize_clear_sky: "capitalize rt (lit ''clear sky'') = lit ''Clear sky''"
  by (simp add: capitalize_def ascii_upper_def ascii_lower_def lit_simps)

lemma capitalize_light_Rain: "capitalize rt (lit ''light Rain'') = lit ''Light rain''"
  by (simp add: capitalize_def ascii_upper_def ascii_lower_def lit_simps)

lemma sample_report_any:
  "format_report (sample_runtime b)
     (sample_data t (described desc) (PyDict []) (PyInt (- 18000))) =
   and_then (format_2f (sample_runtime b) t) (\<lambda>text.
   Inr [(lit ''city'', lit ''London, GB''),
        (lit ''day'', lit ''Monday''),
        (lit ''date'', lit ''01 January 2024''),
        (lit ''temperature'', text @ [176, 67]),
        (lit ''feels_like'', lit ''20.00'' @ [176, 67]),
        (lit ''humidity'', lit ''60%''),
        (lit ''description'', capitalize (sample_runtime b) desc),
        (lit ''wind_speed'', lit ''N/A m/s''),
        (lit ''wind_deg'', lit ''N/A'' @ [176]),
        (lit ''sunrise'', lit ''17:13:20''),
        (lit ''sunset'', lit ''01:33:20'')])"
proof -
  let ?rt = "sample_runtime b"
  have n: "now_strftime ?rt h fmt = (if fmt = lit ''%A'' then lit ''Monday'' else lit ''01 January 2024'')"
    for h fmt
    by (simp add: sample_runtime_def)
  show ?thesis
    unfolding format_report_def sample_data_def described_def
    by (cases "format_2f ?rt t")
       (simp_all add: subscript_def subscript0_def subscript2_def dict_get_def
        weather_description_def wind_get_def capitalize_value_def sample_zone sample_times
        format_2f_20 n py_str_def str_int_def str_nat.simps lit_simps)
qed

lemma sample_rendered:
  "rendered (weather (sample_runtime (Inr (sample_body desc))) (post (lit ''London''))) =
   Inr (Some
       [(lit ''city'', lit ''London, GB''),
        (lit ''day'', lit ''Monday''),
        (lit ''date'', lit ''01 January 2024''),
        (lit ''temperature'', lit ''21.46'' @ [176, 67]),
        (lit ''feels_like'', lit ''20.00'' @ [176, 67]),
        (lit ''humidity'', lit ''60%''),
        (lit ''description'', capitalize (sample_runtime (Inr (sample_body desc))) desc),
        (lit ''wind_speed'', lit ''N/A m/s''),
        (lit ''wind_deg'', lit ''N/A'' @ [176]),
        (lit ''sunrise'', lit ''17:13:20''),
        (lit ''sunset'', lit ''01:33:20'')])"
  unfolding sample_body_def
  by (simp add: sample_weather sample_fetch sample_cod eq_200_def sample_report_any
      format_2f_21_456)

lemma sample_request:
  "requests_get (sample_runtime body) u =
     Inr \<lparr>status_code = 200, reason = lit ''OK'', url = u, json_result = body\<rparr>"
  by (simp add: sample_runtime_def)


section \<open>The shape of the result\<close>

text \<open>
  Claim C9, as amended. Whenever the handler reaches the template after a POST,
  it passes a dictionary, and the dictionary has one of two shapes: the single key
  \<open>error\<close>, or all of the eleven keys of a report, in the order of the source. The
  case that the handler does not reach the template is the counterexample below.
\<close>

theorem weather_info_is_error_or_complete:
  assumes "request_method request = lit ''POST''"
    and "rendered (weather rt request) = Inr r"
  shows "\<exists>info. r = Some info \<and>
     (map fst info = [lit ''error''] \<or>
      map fst info =
        [lit ''city'', lit ''day'', lit ''date'', lit ''temperature'', lit ''feels_like'',
         lit ''humidity'', lit ''description'', lit ''wind_speed'', lit ''wind_deg'',
         lit ''sunrise'', lit ''sunset''])"
proof (cases "form request (lit ''city'')")
  case None
  with assms show ?thesis by (simp add: weather_def)
next
  case (Some raw)
  show ?thesis
  proof (cases "strip raw = [] \<or> 100 < length (strip raw)")
    case True
    with assms Some show ?thesis by (auto simp: weather_def Let_def split: if_splits)
  next
    case False
    then have v: "strip raw \<noteq> []" "length (strip raw) \<le> 100" by auto
    show ?thesis
    proof (cases "fetch_weather rt (base_url rt (strip raw))")
      case (Inr info)
      with assms(2) have "r = Some info"
        by (simp add: weather_valid [OF assms(1) Some v])
      with fetch_weather_keys [OF Inr] show ?thesis by simp
    next
      case (Inl e)
      with assms(2) show ?thesis
        by (cases e) (auto simp: weather_valid [OF assms(1) Some v])
    qed
  qed
qed

theorem weather_info_is_error_or_complete_witness:
  "\<exists>info. rendered (weather (sample_runtime (Inr (sample_body (lit ''clear sky''))))
       (post (lit ''London''))) = Inr (Some info) \<and>
     map fst info =
       [lit ''city'', lit ''day'', lit ''date'', lit ''temperature'', lit ''feels_like'',
        lit ''humidity'', lit ''description'', lit ''wind_speed'', lit ''wind_deg'',
        lit ''sunrise'', lit ''sunset'']"
proof -
  let ?out = "weather (sample_runtime (Inr (sample_body (lit ''clear sky'')))) (post (lit ''London''))"
  obtain info where r: "rendered ?out = Inr (Some info)"
    and k: "map fst info \<noteq> [lit ''error'']"
    using sample_rendered [of "lit ''clear sky''"] by simp
  from weather_info_is_error_or_complete [OF post_simps(1) r] k r
  show ?thesis by auto
qed


text \<open>
  The claim as it was stated fails: a body with \<open>cod\<close> 200 and no \<open>name\<close> makes line 41
  raise \<open>KeyError\<close>, which line 86 does not catch, so the call produces neither a
  report nor an error message.
\<close>

theorem weather_info_missing_field_counterexample:
  "rendered (weather (sample_runtime (Inr (PyDict [(lit ''cod'', PyInt 200)])))
     (post (lit ''London''))) = Inl KeyError"
  unfolding sample_weather sample_fetch
  by (simp add: dict_get_def eq_200_def format_report_def subscript_def lit_simps)

section \<open>Wind fields\<close>

text \<open>
  Claim C8. In a successful answer whose \<open>wind\<close> object has no \<open>speed\<close>, the field
  \<open>wind_speed\<close> reads "N/A m/s"; when it has no \<open>deg\<close>, the field \<open>wind_deg\<close> reads
  "N/A" followed by the degree sign.
\<close>

theorem missing_wind_fields_default_to_NA:
  assumes "request_method request = lit ''POST''" and "form request (lit ''city'') = Some raw"
    and "requests_get rt (base_url rt (strip raw)) = Inr resp"
    and "json_result resp = Inr data"
    and "rendered (weather rt request) = Inr (Some info)"
    and "map_of info (lit ''error'') = None"
    and "subscript data (lit ''wind'') = Inr (PyDict wind)"
  shows "(map_of wind (lit ''speed'') = None \<longrightarrow>
            map_of info (lit ''wind_speed'') = Some (lit ''N/A m/s''))
       \<and> (map_of wind (lit ''deg'') = None \<longrightarrow>
            map_of info (lit ''wind_deg'') = Some (lit ''N/A'' @ [176]))"
proof -
  have r: "format_report rt data = Inr info"
    using assms(1-6) by (rule weather_success)
  have g: "wind_get data key = Inr (PyStr (lit ''N/A''))" if "map_of wind key = None" for key
    using that assms(7) by (simp add: wind_get_def dict_get_def)
  from format_report_shape [OF r] obtain ws wd a1 a2 a3 a4 a5 a6 a7 a10 a11 where
    ws: "wind_get data (lit ''speed'') = Inr ws" and wd: "wind_get data (lit ''deg'') = Inr wd"
    and i: "info =
     [(lit ''city'', a1), (lit ''day'', a2), (lit ''date'', a3), (lit ''temperature'', a4),
      (lit ''feels_like'', a5), (lit ''humidity'', a6), (lit ''description'', a7),
      (lit ''wind_speed'', py_str rt ws @ lit '' m/s''), (lit ''wind_deg'', py_str rt wd @ [176]),
      (lit ''sunrise'', a10), (lit ''sunset'', a11)]"
    by blast
  note f = report_fields(4,5) [OF i]
  show ?thesis
    using g [of "lit ''speed''"] g [of "lit ''deg''"] ws wd f
    by (auto simp: py_str_def lit_def)
qed

theorem missing_wind_fields_default_to_NA_witness:
  "map_of [] (lit ''speed'') = (None :: pyval option) \<and>
   shown (weather (sample_runtime (Inr (sample_body (lit ''clear sky'')))) (post (lit ''London'')))
     (lit ''wind_speed'') = Some (lit ''N/A m/s'') \<and>
   shown (weather (sample_runtime (Inr (sample_body (lit ''clear sky'')))) (post (lit ''London'')))
     (lit ''wind_deg'') = Some (lit ''N/A'' @ [176])"
proof -
  let ?rt = "sample_runtime (Inr (sample_body (lit ''clear sky'')))"
  let ?out = "weather ?rt (post (lit ''London''))"
  obtain info where r: "rendered ?out = Inr (Some info)"
    and e: "map_of info (lit ''error'') = None"
    using sample_rendered [of "lit ''clear sky''"] by (simp add: lit_simps)
  have w: "subscript (sample_body (lit ''clear sky'')) (lit ''wind'') = Inr (PyDict [])"
    by (simp add: sample_body_def sample_data_def subscript_def lit_simps)
  have j: "json_result \<lparr>status_code = 200, reason = lit ''OK'',
      url = base_url ?rt (strip (lit ''London'')),
      json_result = Inr (sample_body (lit ''clear sky''))\<rparr> = Inr (sample_body (lit ''clear sky''))"
    by simp
  from missing_wind_fields_default_to_NA [OF post_simps sample_request j r e w] r
  show ?thesis by (simp add: shown_def)
qed

section \<open>Exceptions\<close>

lemma subscript_escapes: "subscript v k = Inl e \<Longrightarrow> escapes e"
  by (auto simp: subscript_def escapes_def split: pyval.splits option.splits)

lemma subscript0_escapes: "subscript0 v = Inl e \<Longrightarrow> escapes e"
  by (auto simp: subscript0_def escapes_def split: pyval.splits list.splits)

lemma dict_get_escapes: "dict_get v k d = Inl e \<Longrightarrow> escapes e"
  by (auto simp: dict_get_def escapes_def split: pyval.splits option.splits)

lemma subscript2_escapes: "subscript2 v k1 k2 = Inl e \<Longrightarrow> escapes e"
  by (auto simp: subscript2_def and_then_eq_Inl dest: subscript_escapes)

lemma weather_description_escapes: "weather_description v = Inl e \<Longrightarrow> escapes e"
  by (auto simp: weather_description_def and_then_eq_Inl
      dest: subscript_escapes subscript0_escapes)

lemma wind_get_escapes: "wind_get v k = Inl e \<Longrightarrow> escapes e"
  by (auto simp: wind_get_def and_then_eq_Inl dest: subscript_escapes dict_get_escapes)

lemma less_zero_escapes: "less_zero v = Inl e \<Longrightarrow> escapes e"
  by (auto simp: less_zero_def escapes_def split: pyval.splits)

lemma neg_floordiv_3600_escapes: "neg_floordiv_3600 rt v = Inl e \<Longrightarrow> escapes e"
  by (auto simp: neg_floordiv_3600_def escapes_def split: pyval.splits)

lemma zone_name_escapes: "zone_name rt v = Inl e \<Longrightarrow> escapes e"
  by (auto simp: zone_name_def and_then_eq_Inl dest: less_zero_escapes neg_floordiv_3600_escapes)

lemma pytz_timezone_escapes: "pytz_timezone n = Inl e \<Longrightarrow> escapes e"
  by (auto simp: pytz_timezone_def escapes_def split: option.splits)

lemma fromtimestamp_hms_escapes: "fromtimestamp_hms rt ts h = Inl e \<Longrightarrow> escapes e"
  by (auto simp: fromtimestamp_hms_def and_then_eq_Inl escapes_def
      split: pyval.splits option.splits if_splits)

lemma float_of_int_escapes: "float_of_int rt i = Inl e \<Longrightarrow> escapes e"
  by (auto simp: float_of_int_def escapes_def split: option.splits if_splits)

lemma format_2f_escapes: "format_2f rt v = Inl e \<Longrightarrow> escapes e"
  by (auto simp: format_2f_def and_then_eq_Inl escapes_def
      dest: float_of_int_escapes split: pyval.splits)

lemma capitalize_value_escapes: "capitalize_value rt v = Inl e \<Longrightarrow> escapes e"
  by (auto simp: capitalize_value_def escapes_def split: pyval.splits)

lemmas step_escapes =
  subscript_escapes subscript2_escapes weather_description_escapes wind_get_escapes
  zone_name_escapes pytz_timezone_escapes fromtimestamp_hms_escapes format_2f_escapes
  capitalize_value_escapes

text \<open>No step between line 41 and line 80 raises a \<open>RequestException\<close>.\<close>

lemma format_report_escapes:
  assumes "format_report rt data = Inl e"
  shows "escapes e"
  using assms unfolding format_report_def Let_def and_then_eq_Inl
  by (elim disjE exE conjE) (auto dest: step_escapes)

lemma parsed_body_escapes:
  assumes "requests_get rt u = Inr resp" and "raise_for_status resp = Inr ()"
    and "json_result resp = Inr data" and "fetch_weather rt u = Inl e"
  shows "escapes e"
proof -
  from assms(4) have "and_then (dict_get data (lit ''cod'') PyNone) (\<lambda>cod.
       if eq_200 cod then format_report rt data
       else Inr [(lit ''error'', lit ''City not found. Please check the city name.'')]) = Inl e"
    by (simp add: fetch_weather_response [OF assms(1-3)])
  then show ?thesis
    by (auto simp: and_then_eq_Inl dest: dict_get_escapes format_report_escapes
        split: if_splits)
qed

text \<open>
  Claim C3, as amended. For a city that passed validation, an exception raised in
  the \<open>try\<close> block is turned into the answer "An error occurred while fetching
  weather data: ..." exactly when it is a \<open>RequestException\<close>; every other
  exception leaves the handler. Once the body has been parsed, nothing that is
  raised is a \<open>RequestException\<close>: every exception raised while the fields are read
  or formatted leaves the handler.
\<close>

theorem only_request_exceptions_become_failures:
  assumes "request_method request = lit ''POST''" and "form request (lit ''city'') = Some raw"
    and "strip raw \<noteq> []" and "length (strip raw) \<le> 100"
    and "fetch_weather rt (base_url rt (strip raw)) = Inl e"
  shows "(\<forall>text. e = RequestException text \<longrightarrow>
            rendered (weather rt request) =
              Inr (Some [(lit ''error'',
                lit ''An error occurred while fetching weather data: '' @ text)]))
       \<and> (escapes e \<longrightarrow> rendered (weather rt request) = Inl e)
       \<and> (\<forall>resp data. requests_get rt (base_url rt (strip raw)) = Inr resp \<and>
            raise_for_status resp = Inr () \<and> json_result resp = Inr data \<longrightarrow>
            rendered (weather rt request) = Inl e)"
proof -
  have r: "rendered (weather rt request) =
      (case e of
         RequestException text \<Rightarrow>
           Inr (Some [(lit ''error'',
             lit ''An error occurred while fetching weather data: '' @ text)])
       | _ \<Rightarrow> Inl e)"
    by (simp add: weather_valid [OF assms(1-4)] assms(5))
  have a: "rendered (weather rt request) = Inl e" if "escapes e"
    using that r by (cases e) (simp_all add: escapes_def)
  have b: "escapes e" if "requests_get rt (base_url rt (strip raw)) = Inr resp"
    and "raise_for_status resp = Inr ()" and "json_result resp = Inr data" for resp data
    using that assms(5) by (rule parsed_body_escapes)
  show ?thesis
    using r a b by auto
qed


lemma sample_fetch_raises: "fetch_weather (sample_runtime (Inl x)) u = Inl x"
  by (simp add: fetch_weather_def sample_request raise_for_status_def)

theorem only_request_exceptions_become_failures_witness:
  "rendered (weather (sample_runtime (Inl (RequestException (lit ''Expecting value''))))
     (post (lit ''London''))) =
     Inr (Some [(lit ''error'',
       lit ''An error occurred while fetching weather data: Expecting value'')])
   \<and> rendered (weather (sample_runtime (Inl ValueError)) (post (lit ''London''))) = Inl ValueError
   \<and> rendered (weather (sample_runtime (Inr (PyList []))) (post (lit ''London''))) =
       Inl AttributeError"
proof -
  have s: "strip (lit ''London'') \<noteq> []" "length (strip (lit ''London'')) \<le> 100"
    unfolding strip_London by (simp_all add: lit_simps)
  have j: "json_result \<lparr>status_code = 200, reason = lit ''OK'', url = u,
      json_result = Inr (PyList [])\<rparr> = Inr (PyList [])" for u
    by simp
  have st: "raise_for_status \<lparr>status_code = 200, reason = lit ''OK'', url = u,
      json_result = Inr (PyList [])\<rparr> = Inr ()" for u
    by (simp add: raise_for_status_def)
  have f: "fetch_weather (sample_runtime (Inr (PyList []))) u = Inl AttributeError" for u
    by (simp add: sample_fetch dict_get_def)
  from only_request_exceptions_become_failures [OF post_simps s sample_fetch_raises]
  have 1: "rendered (weather (sample_runtime (Inl (RequestException (lit ''Expecting value''))))
     (post (lit ''London''))) =
     Inr (Some [(lit ''error'',
       lit ''An error occurred while fetching weather data: '' @ lit ''Expecting value'')])"
    by blast
  from only_request_exceptions_become_failures [OF post_simps s sample_fetch_raises]
  have 2: "rendered (weather (sample_runtime (Inl ValueError)) (post (lit ''London''))) =
      Inl ValueError"
    by (simp add: escapes_def)
  from only_request_exceptions_become_failures [OF post_simps s f] sample_request j st
  have 3: "rendered (weather (sample_runtime (Inr (PyList []))) (post (lit ''London''))) =
      Inl AttributeError"
    by blast
  from 1 2 3 show ?thesis by (simp add: lit_simps)
qed

text \<open>
  The claim as it was stated fails on both phases. An empty \<open>weather\<close> list makes
  line 48 raise \<open>IndexError\<close> while the body is read; a temperature that is a string
  makes line 72 raise \<open>ValueError\<close> while the report is formatted. Neither is caught.
\<close>

theorem parse_and_format_errors_escape_counterexample:
  "rendered (weather
     (sample_runtime (Inr (sample_data (PyInt 21) (PyList []) (PyDict []) (PyInt (- 18000)))))
     (post (lit ''London''))) = Inl IndexError
   \<and> rendered (weather
     (sample_runtime (Inr (sample_data (PyStr (lit ''21.456'')) (described (lit ''clear sky''))
        (PyDict []) (PyInt (- 18000)))))
     (post (lit ''London''))) = Inl ValueError"
proof -
  have a: "format_report rt (sample_data (PyInt 21) (PyList []) (PyDict []) (PyInt (- 18000)))
      = Inl IndexError" for rt
    unfolding format_report_def sample_data_def
    by (simp add: subscript_def subscript0_def subscript2_def weather_description_def lit_simps)
  have b: "format_report (sample_runtime body)
      (sample_data (PyStr (lit ''21.456'')) (described (lit ''clear sky'')) (PyDict [])
        (PyInt (- 18000))) = Inl ValueError" for body
    by (simp add: sample_report_any format_2f_def)
  show ?thesis
    unfolding sample_weather sample_fetch
    by (simp add: sample_cod eq_200_def a b)
qed

section \<open>The hour offset\<close>

lemma zone_name_int:
  "zone_name rt (PyInt tz) =
     Inr (lit ''Etc/GMT'' @ (if tz < 0 then lit ''+'' else []) @ str_int (hour_offset tz))"
  by (simp add: zone_name_def less_zero_def neg_floordiv_3600_def py_str_def)

lemma sdiv_nonneg: "0 \<le> a \<Longrightarrow> a sdiv 3600 = a div (3600::int)"
  by (auto simp: signed_divide_int_def sgn_if)

lemma sdiv_nonpos: "a \<le> 0 \<Longrightarrow> a sdiv 3600 = - ((- a) div (3600::int))"
  by (auto simp: signed_divide_int_def sgn_if)

lemma hour_offset_bounds: "3600 * hour_offset tz \<le> - tz \<and> - tz < 3600 * hour_offset tz + 3600"
proof -
  have "(- tz) = 3600 * ((- tz) div 3600) + (- tz) mod 3600"
    by simp
  moreover have "0 \<le> (- tz) mod 3600" "(- tz) mod 3600 < 3600"
    by simp_all
  ultimately show ?thesis unfolding hour_offset_def by linarith
qed


lemma hour_offset_truncates_iff: "hour_offset tz = (- tz) sdiv 3600 \<longleftrightarrow> tz \<le> 0 \<or> 3600 dvd tz"
proof (cases "tz \<le> 0")
  case True
  then have "(- tz) sdiv 3600 = (- tz) div 3600"
    by (intro sdiv_nonneg) simp
  with True show ?thesis by (simp only: hour_offset_def simp_thms)
next
  case False
  then have "(- tz) sdiv 3600 = - (tz div 3600)"
    using sdiv_nonpos [of "- tz"] by simp
  moreover have "(- tz) div 3600 = - (tz div 3600) \<longleftrightarrow> 3600 dvd tz"
    by (simp add: zdiv_zminus1_eq_if dvd_eq_mod_eq_0)
  ultimately show ?thesis using False by (simp only: hour_offset_def simp_thms)
qed

text \<open>
  Claim C1, as amended. For an integer offset the zone is named after
  \<open>hour_offset\<close>, which is the floor of \<open>- offset / 3600\<close> (rounding towards minus
  infinity). It equals the quotient rounded towards zero exactly when the offset
  is not positive or is a multiple of 3600.
\<close>

theorem hour_offset_is_floor:
  "zone_name rt (PyInt tz) =
     Inr (lit ''Etc/GMT'' @ (if tz < 0 then lit ''+'' else []) @ str_int (hour_offset tz))
   \<and> 3600 * hour_offset tz \<le> - tz \<and> - tz < 3600 * hour_offset tz + 3600
   \<and> (hour_offset tz = (- tz) sdiv 3600 \<longleftrightarrow> tz \<le> 0 \<or> 3600 dvd tz)"
  using zone_name_int [of rt tz] hour_offset_bounds [of tz] hour_offset_truncates_iff [of tz]
  by blast

theorem hour_offset_is_floor_witness:
  "zone_name (sample_runtime (Inl ValueError)) (PyInt (- 12600)) = Inr (lit ''Etc/GMT+3'')
   \<and> hour_offset (- 12600) = 3"
proof -
  have h: "hour_offset (- 12600) = 3"
    by (simp add: hour_offset_def)
  from hour_offset_is_floor [of "sample_runtime (Inl ValueError)" "- 12600"]
  have "zone_name (sample_runtime (Inl ValueError)) (PyInt (- 12600)) =
      Inr (lit ''Etc/GMT'' @ (if (- 12600 :: int) < 0 then lit ''+'' else [])
        @ str_int (hour_offset (- 12600)))"
    by blast
  with h show ?thesis
    by (simp add: str_int_def str_nat.simps lit_simps)
qed

text \<open>
  The claim as it was stated fails for the offset of five and a half hours: the
  zone is named after \<open>-6\<close>, where rounding towards zero gives \<open>-5\<close>.
\<close>

theorem hour_offset_truncation_counterexample:
  "hour_offset 19800 = - 6 \<and> (- 19800 :: int) sdiv 3600 = - 5
   \<and> zone_name (sample_runtime (Inl ValueError)) (PyInt 19800) = Inr (lit ''Etc/GMT-6'')"
  by (simp add: zone_name_int hour_offset_def signed_divide_int_def str_int_def
      str_nat.simps lit_simps)

section \<open>Decimal numerals\<close>

lemma decimal_value_snoc: "decimal_value (s @ [c]) = 10 * decimal_value s + (c - 48)"
  by (simp add: decimal_value_def)

lemma decimal_value_str_nat: "decimal_value (str_nat n) = n"
proof (induction n rule: str_nat.induct)
  case (1 n)
  show ?case
  proof (cases "n < 10")
    case True
    then show ?thesis
      by (subst str_nat.simps) (simp add: decimal_value_def)
  next
    case False
    with 1 have "decimal_value (str_nat (n div 10)) = n div 10" by simp
    with False show ?thesis
      by (subst str_nat.simps) (simp add: decimal_value_snoc)
  qed
qed

lemma digits_str_nat: "list_all is_digit (str_nat n)"
proof (induction n rule: str_nat.induct)
  case (1 n)
  show ?case
  proof (cases "n < 10")
    case True
    then show ?thesis
      by (subst str_nat.simps) (simp add: is_digit_def)
  next
    case False
    with 1 have "list_all is_digit (str_nat (n div 10))" by simp
    moreover have "is_digit (48 + n mod 10)"
      unfolding is_digit_def by (simp add: le_diff_conv2 Suc_leI)
    ultimately show ?thesis using False
      by (subst str_nat.simps) simp
  qed
qed

lemma str_nat_not_Nil: "str_nat n \<noteq> []"
  by (subst str_nat.simps) simp

lemma two_digits_props:
  assumes "n < 100"
  shows "length (two_digits n) = 2" and "list_all is_digit (two_digits n)"
    and "decimal_value (two_digits n) = n"
proof -
  from assms have "n div 10 < 10" by simp
  moreover have "n mod 10 < 10" by simp
  ultimately show "list_all is_digit (two_digits n)"
    unfolding two_digits_def is_digit_def by simp
  show "length (two_digits n) = 2"
    by (simp add: two_digits_def)
  show "decimal_value (two_digits n) = n"
    by (simp add: two_digits_def decimal_value_def)
qed

lemma round_half_even_near: "\<bar>of_int (round_half_even x) - x\<bar> \<le> 1 / 2"
proof -
  define r where "r = x - of_int \<lfloor>x\<rfloor>"
  have r0: "0 \<le> r" and r1: "r < 1"
    unfolding r_def by linarith+
  have x: "x = of_int \<lfloor>x\<rfloor> + r"
    by (simp add: r_def)
  have v: "round_half_even x =
      (if r < 1 / 2 then \<lfloor>x\<rfloor> else if 1 / 2 < r then \<lfloor>x\<rfloor> + 1
       else if even \<lfloor>x\<rfloor> then \<lfloor>x\<rfloor> else \<lfloor>x\<rfloor> + 1)"
    by (simp add: round_half_even_def Let_def r_def)
  consider "round_half_even x = \<lfloor>x\<rfloor>" "r \<le> 1 / 2"
    | "round_half_even x = \<lfloor>x\<rfloor> + 1" "1 / 2 \<le> r"
    unfolding v by (cases "r < 1 / 2"; cases "1 / 2 < r"; cases "even \<lfloor>x\<rfloor>") auto
  then show ?thesis
  proof cases
    case 1
    have "of_int (round_half_even x) - x = - r"
      unfolding 1(1) by (subst (2) x) simp
    with r0 1(2) show ?thesis by simp
  next
    case 2
    have "of_int (round_half_even x) - x = 1 - r"
      unfolding 2(1) by (subst (2) x) simp
    with r1 2(2) show ?thesis by simp
  qed
qed

lemma round_half_even_nonneg: "0 \<le> x \<Longrightarrow> 0 \<le> round_half_even x"
  unfolding round_half_even_def Let_def by auto

lemma float_2f_rounds: "shows_rounded_2dp x (float_2f (Finite x))"
proof -
  define n where "n = nat (round_half_even (\<bar>x\<bar> * 100))"
  have nn: "0 \<le> round_half_even (\<bar>x\<bar> * 100)"
    by (rule round_half_even_nonneg) simp
  then have "of_nat n = (of_int (round_half_even (\<bar>x\<bar> * 100)) :: rat)"
    by (simp add: n_def)
  with round_half_even_near [of "\<bar>x\<bar> * 100"]
  have near: "\<bar>of_nat n - \<bar>x\<bar> * 100\<bar> \<le> (1 :: rat) / 2"
    by simp
  have split: "(of_nat (n div 100) + of_nat (n mod 100) / 100 :: rat) = of_nat n / 100"
  proof -
    have "(of_nat n :: rat) = of_nat (100 * (n div 100) + n mod 100)"
      by simp
    also have "\<dots> = 100 * of_nat (n div 100) + of_nat (n mod 100)"
      by (simp only: of_nat_add of_nat_mult of_nat_numeral)
    finally show ?thesis by simp
  qed
  have "\<bar>of_nat n / 100 - \<bar>x\<bar>\<bar> = \<bar>of_nat n - \<bar>x\<bar> * 100\<bar> / (100 :: rat)"
    by (simp add: abs_if field_simps)
  with near have close: "\<bar>of_nat n / 100 - \<bar>x\<bar>\<bar> \<le> (1 :: rat) / 200"
    by simp
  have m: "n mod 100 < 100" by simp
  have "float_2f (Finite x) =
      (if x < 0 then lit ''-'' else []) @ str_nat (n div 100) @ lit ''.'' @ two_digits (n mod 100)"
    by (simp add: float_2f_def fixed2_def n_def)
  moreover have "str_nat (n div 100) \<noteq> []"
    by (rule str_nat_not_Nil)
  moreover have "length (two_digits (n mod 100)) = 2"
    by (rule two_digits_props(1) [OF m])
  moreover have "list_all is_digit (str_nat (n div 100) @ two_digits (n mod 100))"
    using digits_str_nat two_digits_props(2) [OF m] by simp
  moreover have "\<bar>of_nat (decimal_value (str_nat (n div 100)))
      + of_nat (decimal_value (two_digits (n mod 100))) / 100 - \<bar>x\<bar>\<bar> \<le> (1 :: rat) / 200"
    using close by (simp only: decimal_value_str_nat two_digits_props(3) [OF m] split)
  ultimately show ?thesis
    unfolding shows_rounded_2dp_def by blast
qed

lemma format_2f_number:
  assumes "number_value t = Some x"
  shows "format_2f rt t = Inr (float_2f (Finite x))"
  using assms
  by (auto simp: number_value_def format_2f_def float_of_int_def
      split: pyval.splits pyfloat.splits if_splits)

section \<open>Temperatures\<close>

text \<open>
  The sample temperature is the double nearest to 21.456: its numerator has 53
  bits and it is within half a unit in the last place (\<open>1 / 2 ^ 49\<close>) of 21.456.
\<close>

lemma nearest_double_21_456:
  "(281474976710656 :: rat) = 2 ^ 48"
  "(2 :: int) ^ 52 \<le> 6039327100303835" "(6039327100303835 :: int) < 2 ^ 53"
  "\<bar>6039327100303835 / 281474976710656 - 21456 / 1000\<bar> \<le> (1 :: rat) / 2 ^ 49"
  by simp_all

text \<open>
  Claim C7. In a successful answer whose \<open>temp\<close> and \<open>feels_like\<close> are numbers that a
  double holds exactly, the fields \<open>temperature\<close> and \<open>feels_like\<close> are those values
  rounded to exactly two decimal places, followed by the degree sign and \<open>C\<close>.
\<close>

theorem temperatures_rounded_to_two_places:
  assumes "request_method request = lit ''POST''" and "form request (lit ''city'') = Some raw"
    and "requests_get rt (base_url rt (strip raw)) = Inr resp"
    and "json_result resp = Inr data"
    and "rendered (weather rt request) = Inr (Some info)"
    and "map_of info (lit ''error'') = None"
    and "subscript2 data (lit ''main'') (lit ''temp'') = Inr t"
    and "number_value t = Some x"
    and "subscript2 data (lit ''main'') (lit ''feels_like'') = Inr f"
    and "number_value f = Some y"
  shows "\<exists>text_t text_f.
     shows_rounded_2dp x text_t \<and>
     map_of info (lit ''temperature'') = Some (text_t @ [176, 67]) \<and>
     shows_rounded_2dp y text_f \<and>
     map_of info (lit ''feels_like'') = Some (text_f @ [176, 67])"
proof -
  have r: "format_report rt data = Inr info"
    using assms(1-6) by (rule weather_success)
  from format_report_shape [OF r] assms(7,9)
  obtain text_t text_f a1 a2 a3 a6 a7 a8 a9 a10 a11 where
    t: "format_2f rt t = Inr text_t" and f: "format_2f rt f = Inr text_f"
    and i: "info =
     [(lit ''city'', a1), (lit ''day'', a2), (lit ''date'', a3),
      (lit ''temperature'', text_t @ [176, 67]), (lit ''feels_like'', text_f @ [176, 67]),
      (lit ''humidity'', a6), (lit ''description'', a7), (lit ''wind_speed'', a8),
      (lit ''wind_deg'', a9), (lit ''sunrise'', a10), (lit ''sunset'', a11)]"
    by auto
  from t f have "text_t = float_2f (Finite x)" "text_f = float_2f (Finite y)"
    by (simp_all add: format_2f_number [OF assms(8)] format_2f_number [OF assms(10)])
  then have "shows_rounded_2dp x text_t" "shows_rounded_2dp y text_f"
    by (simp_all add: float_2f_rounds)
  with report_fields(1,2) [OF i] show ?thesis by blast
qed

theorem temperatures_rounded_to_two_places_witness:
  "shows_rounded_2dp (6039327100303835 / 281474976710656) (lit ''21.46'') \<and>
   shown (weather (sample_runtime (Inr (sample_body (lit ''clear sky'')))) (post (lit ''London'')))
     (lit ''temperature'') = Some (lit ''21.46'' @ [176, 67]) \<and>
   shows_rounded_2dp 20 (lit ''20.00'') \<and>
   shown (weather (sample_runtime (Inr (sample_body (lit ''clear sky'')))) (post (lit ''London'')))
     (lit ''feels_like'') = Some (lit ''20.00'' @ [176, 67])"
proof -
  let ?body = "sample_body (lit ''clear sky'')"
  let ?rt = "sample_runtime (Inr ?body)"
  let ?out = "weather ?rt (post (lit ''London''))"
  obtain info where r: "rendered ?out = Inr (Some info)"
    and e: "map_of info (lit ''error'') = None"
    and vt: "map_of info (lit ''temperature'') = Some (lit ''21.46'' @ [176, 67])"
    and vf: "map_of info (lit ''feels_like'') = Some (lit ''20.00'' @ [176, 67])"
    using sample_rendered [of "lit ''clear sky''"] by (simp add: lit_simps)
  have j: "json_result \<lparr>status_code = 200, reason = lit ''OK'',
      url = base_url ?rt (strip (lit ''London'')), json_result = Inr ?body\<rparr> = Inr ?body"
    by simp
  have t: "subscript2 ?body (lit ''main'') (lit ''temp'') =
      Inr (PyFloat (Finite (6039327100303835 / 281474976710656)))"
    and f: "subscript2 ?body (lit ''main'') (lit ''feels_like'') = Inr (PyInt 20)"
    by (simp_all add: sample_body_def sample_data_def subscript2_def subscript_def lit_simps)
  have nt: "number_value (PyFloat (Finite (6039327100303835 / 281474976710656))) =
      Some (6039327100303835 / 281474976710656)"
    and nf: "number_value (PyInt 20) = Some 20"
    by (simp_all add: number_value_def)
  from temperatures_rounded_to_two_places [OF post_simps sample_request j r e t nt f nf] vt vf
  have "shows_rounded_2dp (6039327100303835 / 281474976710656) (lit ''21.46'')"
    and "shows_rounded_2dp 20 (lit ''20.00'')"
    by auto
  with r vt vf show ?thesis
    by (simp add: shown_def)
qed

section \<open>The description\<close>

lemma ascii_lower_unchanged: "\<not> (65 \<le> c \<and> c \<le> 90) \<Longrightarrow> ascii_lower c = c"
  by (simp add: ascii_lower_def)

lemma map_ascii_lower_unchanged:
  "list_all (\<lambda>c. \<not> (65 \<le> c \<and> c \<le> 90)) cs \<Longrightarrow> map ascii_lower cs = cs"
  by (induction cs) (simp_all add: ascii_lower_unchanged)

text \<open>
  Claim C2, as amended. In a successful answer whose description is a string of
  ASCII characters, the field \<open>description\<close> is that string with its first
  character in upper case and every other character in lower case. The other
  characters are therefore unchanged when none of them is an upper-case letter,
  and then only.
\<close>

theorem description_is_capitalized:
  assumes "request_method request = lit ''POST''" and "form request (lit ''city'') = Some raw"
    and "requests_get rt (base_url rt (strip raw)) = Inr resp"
    and "json_result resp = Inr data"
    and "rendered (weather rt request) = Inr (Some info)"
    and "map_of info (lit ''error'') = None"
    and "weather_description data = Inr (PyStr s)"
    and "list_all (\<lambda>c. c < 128) s"
  shows "map_of info (lit ''description'') =
           Some (case s of [] \<Rightarrow> [] | c # cs \<Rightarrow> ascii_upper c # map ascii_lower cs)
       \<and> (map_of info (lit ''description'') =
             Some (case s of [] \<Rightarrow> [] | c # cs \<Rightarrow> ascii_upper c # cs)
            \<longleftrightarrow> list_all (\<lambda>c. \<not> (65 \<le> c \<and> c \<le> 90)) (tl s))"
proof -
  have r: "format_report rt data = Inr info"
    using assms(1-6) by (rule weather_success)
  from format_report_shape [OF r] assms(7)
  obtain text_d a1 a2 a3 a4 a5 a6 a8 a9 a10 a11 where
    d: "capitalize_value rt (PyStr s) = Inr text_d"
    and i: "info =
     [(lit ''city'', a1), (lit ''day'', a2), (lit ''date'', a3), (lit ''temperature'', a4),
      (lit ''feels_like'', a5), (lit ''humidity'', a6), (lit ''description'', text_d),
      (lit ''wind_speed'', a8), (lit ''wind_deg'', a9), (lit ''sunrise'', a10),
      (lit ''sunset'', a11)]"
    by auto
  from d assms(8)
  have "text_d = (case s of [] \<Rightarrow> [] | c # cs \<Rightarrow> ascii_upper c # map ascii_lower cs)"
    by (simp add: capitalize_value_def capitalize_def)
  with report_fields(3) [OF i]
  have v: "map_of info (lit ''description'') =
      Some (case s of [] \<Rightarrow> [] | c # cs \<Rightarrow> ascii_upper c # map ascii_lower cs)"
    by simp
  have l: "map ascii_lower cs = cs \<longleftrightarrow> list_all (\<lambda>c. \<not> (65 \<le> c \<and> c \<le> 90)) cs" for cs
    by (induction cs) (auto simp: ascii_lower_def)
  show ?thesis
    unfolding v by (cases s) (simp_all add: l)
qed

theorem description_is_capitalized_witness:
  "shown (weather (sample_runtime (Inr (sample_body (lit ''clear sky'')))) (post (lit ''London'')))
     (lit ''description'') = Some (lit ''Clear sky'')"
proof -
  let ?body = "sample_body (lit ''clear sky'')"
  let ?rt = "sample_runtime (Inr ?body)"
  let ?out = "weather ?rt (post (lit ''London''))"
  obtain info where r: "rendered ?out = Inr (Some info)"
    and e: "map_of info (lit ''error'') = None"
    using sample_rendered [of "lit ''clear sky''"] by (simp add: lit_simps)
  have j: "json_result \<lparr>status_code = 200, reason = lit ''OK'',
      url = base_url ?rt (strip (lit ''London'')), json_result = Inr ?body\<rparr> = Inr ?body"
    by simp
  have w: "weather_description ?body = Inr (PyStr (lit ''clear sky''))"
    unfolding sample_body_def sample_data_def described_def weather_description_def
    by (simp add: subscript_def subscript0_def lit_simps)
  have a: "list_all (\<lambda>c. c < 128) (lit ''clear sky'')"
    by (simp add: lit_simps)
  from description_is_capitalized [OF post_simps sample_request j r e w a]
  have "map_of info (lit ''description'') =
      Some (case lit ''clear sky'' of [] \<Rightarrow> [] | c # cs \<Rightarrow> ascii_upper c # map ascii_lower cs)"
    by blast
  with r show ?thesis
    by (simp add: shown_def ascii_upper_def ascii_lower_def lit_simps)
qed

text \<open>
  The claim as it was stated fails for "light Rain": the capital letter inside the
  description is put in lower case, so the rest of the string is not unchanged.
\<close>

theorem description_rest_lowered_counterexample:
  "shown (weather (sample_runtime (Inr (sample_body (lit ''light Rain'')))) (post (lit ''London'')))
     (lit ''description'') = Some (lit ''Light rain'')
   \<and> lit ''Light rain'' \<noteq> lit ''Light Rain''"
  by (simp add: shown_def sample_rendered capitalize_light_Rain) (simp add: lit_simps)

end
